theory Spec2Isabelle
  imports Complex_Main "HOL-Library.Word" "HOL-Library.Log_Nat"
begin

section \<open>C values\<close>

text \<open>
  A C \<open>double\<close>. The binding never computes with doubles: it compares them (\<open><\<close>, \<open>>\<close>),
  tests them for zero and passes them on, so a double is modelled by the real number it
  stands for, the two infinities and NaN (every comparison with NaN is false).
\<close>

datatype double = NaN | NegInf | Fin real | PosInf

fun dlt :: "double \<Rightarrow> double \<Rightarrow> bool" where
  "dlt NaN _ = False"
| "dlt _ NaN = False"
| "dlt PosInf _ = False"
| "dlt _ NegInf = False"
| "dlt NegInf _ = True"
| "dlt _ PosInf = True"
| "dlt (Fin a) (Fin b) = (a < b)"

definition dgt :: "double \<Rightarrow> double \<Rightarrow> bool" where
  "dgt a b = dlt b a"

fun dneg :: "double \<Rightarrow> double" where
  "dneg NaN = NaN"
| "dneg NegInf = PosInf"
| "dneg PosInf = NegInf"
| "dneg (Fin a) = Fin (- a)"

text \<open>The truth value of a double in \<open>if (d)\<close>: anything but zero.\<close>

definition dnonzero :: "double \<Rightarrow> bool" where
  "dnonzero d = (d \<noteq> Fin 0)"

text \<open>A C \<open>int\<close> has 32 bits and a C \<open>long\<close> 64 (LP64); the cast from long to int wraps.\<close>

definition INT_MIN :: int where "INT_MIN = - (2 ^ 31)"
definition INT_MAX :: int where "INT_MAX = 2 ^ 31 - 1"
definition LONG_MIN :: int where "LONG_MIN = - (2 ^ 63)"
definition LONG_MAX :: int where "LONG_MAX = 2 ^ 63 - 1"

definition long_to_int :: "int \<Rightarrow> int" where
  "long_to_int l = sint (word_of_int l :: 32 word)"

text \<open>
  An integer as a double: the nearest integer with 53 significant bits, a tie going to the
  even one. An integer below \<open>2^53\<close> in size is kept. From \<open>DBL_LIMIT\<close> on in size (half
  way between the largest double and \<open>2^1024\<close>) the nearest double would be infinite.
\<close>

definition round_to_double :: "int \<Rightarrow> int" where
  "round_to_double n =
     (let a = \<bar>n\<bar>
      in if a < 2 ^ 53 then n
         else (let e = nat (bitlen a) - 53;
                   q = a div 2 ^ e;
                   r = a mod 2 ^ e;
                   q' = (if 2 * r > 2 ^ e \<or> (2 * r = 2 ^ e \<and> odd q) then q + 1 else q)
               in sgn n * (q' * 2 ^ e)))"

definition DBL_LIMIT :: int where
  "DBL_LIMIT = 2 ^ 1024 - 2 ^ 970"

section \<open>The engine\<close>

text \<open>
  The solver library is not part of the repository. The binding sees it through the calls
  it makes, the return code of each call and a few fields of the \<open>SCIP\<close> structure it
  reads and writes directly. The model keeps the calls in the order they are issued
  (\<open>calls\<close>), and takes the engine's answers from the structure itself: \<open>retcode_of\<close>
  gives the return code of a call after a history of calls, \<open>feasible_of\<close> the verdict
  of the feasibility check. Both are arbitrary, so every theorem holds for every engine
  behaviour.
\<close>

datatype SCIP_STAGE = SCIP_STAGE_PROBLEM | SCIP_STAGE_TRANSFORMED | SCIP_STAGE_SOLVED

datatype SCIP_OBJSENSE = SCIP_OBJSENSE_MAXIMIZE | SCIP_OBJSENSE_MINIMIZE

datatype scip_call =
    CreateVar double double double int
  | AddVar nat
  | ChgVarBranchPriority nat int
  | VarChgObj nat double
  | ChgVarLb nat double
  | ChgVarUb nat double
  | TransformProb
  | CreateSol
  | SetSolVal nat double
  | CheckSolOrig
  | TrySolFree
  | ClockReset
  | Solve
  | SetObjsense SCIP_OBJSENSE
  | FreeTransform
  | DelCons nat

record SCIP =
  addr :: nat
  num_infinity :: double
  stage :: SCIP_STAGE
  sense :: SCIP_OBJSENSE
  branchpriority :: "nat \<Rightarrow> int"
  nvars :: nat
  limit_time :: double
  limit_gap :: double
  limit_absgap :: double
  limit_solutions :: int
  objoffset :: double
  calls :: "scip_call list"
  retcode_of :: "scip_call list \<Rightarrow> scip_call \<Rightarrow> int"
  feasible_of :: "scip_call list \<Rightarrow> bool"

definition SCIP_OKAY :: int where "SCIP_OKAY = 1"

text \<open>
  Modelled from the spec: the engine's own state changes, which live in the wrapped
  library and not under src/. A call the engine accepts has the effect the spec gives it:
  setting the objective sense sets it, a transform leaves the unsolved state, a solve
  makes the session SOLVED, a restart (free transform) returns it to the pre-transform,
  unsolved state (\<open>SCIP_STAGE_PROBLEM\<close>), a priority change is visible to later reads,
  creating a variable hands out the next variable handle. A call the engine refuses
  changes nothing but the record of calls.
\<close>

fun scip_effect :: "scip_call \<Rightarrow> SCIP \<Rightarrow> SCIP" where
  "scip_effect (SetObjsense s) S = S\<lparr>sense := s\<rparr>"
| "scip_effect TransformProb S = S\<lparr>stage := SCIP_STAGE_TRANSFORMED\<rparr>"
| "scip_effect Solve S = S\<lparr>stage := SCIP_STAGE_SOLVED\<rparr>"
| "scip_effect FreeTransform S = S\<lparr>stage := SCIP_STAGE_PROBLEM\<rparr>"
| "scip_effect (ChgVarBranchPriority v p) S = S\<lparr>branchpriority := (branchpriority S)(v := p)\<rparr>"
| "scip_effect (CreateVar lb ub obj t) S = S\<lparr>nvars := Suc (nvars S)\<rparr>"
| "scip_effect _ S = S"

definition scip_exec :: "scip_call \<Rightarrow> SCIP \<Rightarrow> int \<times> SCIP" where
  "scip_exec c S =
     (let rc = retcode_of S (calls S) c;
          S1 = S\<lparr>calls := calls S @ [c]\<rparr>
      in (rc, if rc = SCIP_OKAY then scip_effect c S1 else S1))"

definition SCIPinfinity :: "SCIP \<Rightarrow> double" where
  "SCIPinfinity S = num_infinity S"

text \<open>\<open>SCIPcreateVar\<close> also returns the handle of the new variable.\<close>

definition SCIPcreateVar :: "SCIP \<Rightarrow> double \<Rightarrow> double \<Rightarrow> double \<Rightarrow> int \<Rightarrow> int \<times> nat \<times> SCIP" where
  "SCIPcreateVar S lb ub obj t =
     (case scip_exec (CreateVar lb ub obj t) S of (rc, S') \<Rightarrow> (rc, nvars S, S'))"

definition SCIPvarGetBranchPriority :: "SCIP \<Rightarrow> nat \<Rightarrow> int" where
  "SCIPvarGetBranchPriority S v = branchpriority S v"

text \<open>\<open>SCIPcheckSolOrig\<close> also returns the verdict, taken before the call is recorded.\<close>

definition SCIPcheckSolOrig :: "SCIP \<Rightarrow> int \<times> bool \<times> SCIP" where
  "SCIPcheckSolOrig S =
     (case scip_exec CheckSolOrig S of (rc, S') \<Rightarrow> (rc, feasible_of S (calls S), S'))"

text \<open>
  Modelled from the spec: the four value domains of a variable, numbered as the engine's
  header numbers them (the header is not under src/). The code only tells them apart.
\<close>

definition SCIP_VARTYPE_BINARY :: int where "SCIP_VARTYPE_BINARY = 0"
definition SCIP_VARTYPE_INTEGER :: int where "SCIP_VARTYPE_INTEGER = 1"
definition SCIP_VARTYPE_IMPLINT :: int where "SCIP_VARTYPE_IMPLINT = 2"
definition SCIP_VARTYPE_CONTINUOUS :: int where "SCIP_VARTYPE_CONTINUOUS = 3"

section \<open>Python objects\<close>

text \<open>
  The three extension types (their struct declarations are in \<open>python_zibopt.h\<close>, which
  is not under src/; the fields are the ones the code reads and writes). A pointer to an
  engine, a variable or a constraint is a number. The two registries of a session hold
  the engine handles of its variables and constraints, newest first.
\<close>

record solver =
  scip :: SCIP
  first_var :: "nat list"
  first_cons :: "nat list"

record variable =
  var_scip :: nat
  variable :: nat
  lower :: double
  upper :: double

record constraint =
  cons_scip :: nat
  constraint :: nat

text \<open>
  A Python object is known by its type. The source tells the extension types apart by
  comparing the type's name (\<open>strcmp\<close> on \<open>tp_name\<close>); here each type is a constructor,
  and an object of any other type, also of a subclass (whose name differs), is
  \<open>PyOther\<close> with its type's name.
\<close>

datatype pyobj =
    PyFloat double
  | PyLong int
  | PyUnicode string
  | PyDict "(pyobj \<times> pyobj) list"
  | PySolver solver
  | PyVariable variable
  | PyConstraint constraint
  | PyOther string

text \<open>
  The error indicator of the interpreter: \<open>None\<close> when no error is pending.
  \<open>ModuleError\<close> is the module's own exception with its message.
\<close>

datatype pyerror = ModuleError string | ScipError int | TypeError | OverflowError

fun PyFloat_Check :: "pyobj \<Rightarrow> bool" where
  "PyFloat_Check (PyFloat _) = True"
| "PyFloat_Check _ = False"

fun PyLong_Check :: "pyobj \<Rightarrow> bool" where
  "PyLong_Check (PyLong _) = True"
| "PyLong_Check _ = False"

fun PyUnicode_Check :: "pyobj \<Rightarrow> bool" where
  "PyUnicode_Check (PyUnicode _) = True"
| "PyUnicode_Check _ = False"

text \<open>
  \<open>PyFloat_AsDouble\<close>: the value as a C double and the error the call leaves pending. A
  float gives its value. An int gives the double nearest to it, or \<open>-1.0\<close> with
  \<open>OverflowError\<close> pending when it is beyond the range of a double. Any other object
  gives \<open>-1.0\<close> with \<open>TypeError\<close> pending.
\<close>

fun PyFloat_AsDouble :: "pyobj \<Rightarrow> double \<times> pyerror option" where
  "PyFloat_AsDouble (PyFloat d) = (d, None)"
| "PyFloat_AsDouble (PyLong n) =
     (if \<bar>n\<bar> < DBL_LIMIT then (Fin (of_int (round_to_double n)), None)
      else (Fin (- 1), Some OverflowError))"
| "PyFloat_AsDouble _ = (Fin (- 1), Some TypeError)"

text \<open>
  \<open>PyLong_AsLong\<close> on an int: the value, or \<open>-1\<close> with \<open>OverflowError\<close> pending when the
  value does not fit a C long.
\<close>

fun PyLong_AsLong :: "pyobj \<Rightarrow> int \<times> pyerror option" where
  "PyLong_AsLong (PyLong n) =
     (if LONG_MIN \<le> n \<and> n \<le> LONG_MAX then (n, None) else (- 1, Some OverflowError))"
| "PyLong_AsLong _ = (- 1, Some TypeError)"

text \<open>A pending error stays; a new one replaces it.\<close>

definition raise_opt :: "pyerror option \<Rightarrow> pyerror option \<Rightarrow> pyerror option" where
  "raise_opt e exc = (case e of None \<Rightarrow> exc | Some x \<Rightarrow> Some x)"

text \<open>
  Modelled from the spec: \<open>PY_SCIP_CALL\<close>, a macro of \<open>python_zibopt_error.h\<close>, which is not
  under src/. Any non-success status of an engine call becomes the single error kind that
  carries the status code, and the enclosing function returns at once.
\<close>

definition PY_SCIP_ERROR :: "int \<Rightarrow> pyerror option" where
  "PY_SCIP_ERROR rc = Some (ScipError rc)"

text \<open>The return value of a method: \<open>NULL\<close> (an error is pending) or \<open>None\<close>.\<close>

datatype pyret = PyNULL | PyNone

section \<open>Variables (varsmodule.c)\<close>

text \<open>
  The arguments of \<open>variable(solver, vartype, coefficient, lower, upper, priority)\<close>,
  each present or absent.
\<close>

record init_args =
  arg_solver :: "pyobj option"
  arg_vartype :: "pyobj option"
  arg_coefficient :: "pyobj option"
  arg_lower :: "pyobj option"
  arg_upper :: "pyobj option"
  arg_priority :: "pyobj option"

text \<open>
  The argument parser's formats: \<open>i\<close> takes an int that fits a C int, \<open>d\<close> what
  \<open>PyFloat_AsDouble\<close> converts without an error. An absent optional argument leaves the C
  variable as it was (\<open>cur\<close>).
\<close>

fun parse_i :: "pyobj option \<Rightarrow> int \<Rightarrow> pyerror + int" where
  "parse_i None cur = Inr cur"
| "parse_i (Some (PyLong n)) cur =
     (if INT_MIN \<le> n \<and> n \<le> INT_MAX then Inr n else Inl OverflowError)"
| "parse_i (Some _) cur = Inl TypeError"

fun parse_d :: "pyobj option \<Rightarrow> double \<Rightarrow> pyerror + double" where
  "parse_d None cur = Inr cur"
| "parse_d (Some arg) cur =
     (case PyFloat_AsDouble arg of (d, None) \<Rightarrow> Inr d | (d, Some e) \<Rightarrow> Inl e)"

text \<open>Format \<open>O|idddi\<close>: the solver object is required.\<close>

definition parse_O_idddi ::
  "init_args \<Rightarrow> int \<Rightarrow> double \<Rightarrow> double \<Rightarrow> double \<Rightarrow> int \<Rightarrow>
     pyerror + (pyobj \<times> int \<times> double \<times> double \<times> double \<times> int)" where
  "parse_O_idddi a t c lhs rhs priority =
     (case arg_solver a of
        None \<Rightarrow> Inl TypeError
      | Some s \<Rightarrow>
         (case parse_i (arg_vartype a) t of Inl e \<Rightarrow> Inl e | Inr t' \<Rightarrow>
         (case parse_d (arg_coefficient a) c of Inl e \<Rightarrow> Inl e | Inr c' \<Rightarrow>
         (case parse_d (arg_lower a) lhs of Inl e \<Rightarrow> Inl e | Inr lhs' \<Rightarrow>
         (case parse_d (arg_upper a) rhs of Inl e \<Rightarrow> Inl e | Inr rhs' \<Rightarrow>
         (case parse_i (arg_priority a) priority of Inl e \<Rightarrow> Inl e | Inr p' \<Rightarrow>
            Inr (s, t', c', lhs', rhs', p')))))))"

text \<open>The type and the bounds of the new variable (lines 42 to 49).\<close>

definition init_type_bounds :: "int \<Rightarrow> double \<Rightarrow> double \<Rightarrow> int \<times> double \<times> double" where
  "init_type_bounds t lhs rhs =
     (if t \<noteq> SCIP_VARTYPE_BINARY \<and> t \<noteq> SCIP_VARTYPE_INTEGER \<and> t \<noteq> SCIP_VARTYPE_IMPLINT
      then (SCIP_VARTYPE_CONTINUOUS, lhs, rhs)
      else if t = SCIP_VARTYPE_BINARY
      then (t, if dlt lhs (Fin 0) then Fin 0 else lhs, if dgt rhs (Fin 1) then Fin 1 else rhs)
      else (t, lhs, rhs))"

text \<open>
  \<open>variable_init self exc a c0\<close>: \<open>self\<close> is the new object, \<open>exc\<close> the error indicator,
  \<open>c0\<close> what the C variable \<open>c\<close> holds when no coefficient is given (the source never
  sets it). The result is the return value, the object, the error indicator and the
  solver argument after the call. The first parse only finds the solver: all it stores
  but \<open>c\<close> is overwritten by the defaults before the second parse.
\<close>

definition variable_init ::
  "variable \<Rightarrow> pyerror option \<Rightarrow> init_args \<Rightarrow> double \<Rightarrow>
     int \<times> variable \<times> pyerror option \<times> pyobj option" where
  "variable_init self exc a c0 =
     (case parse_O_idddi a 0 c0 (Fin 0) (Fin 0) 0 of
        Inl e \<Rightarrow> (- 1, self, Some e, arg_solver a)
      | Inr (s, _, c1, _, _, _) \<Rightarrow>
         (case s of
            PySolver solv \<Rightarrow>
              (let self1 = self\<lparr>var_scip := addr (scip solv)\<rparr>;
                   S = scip solv
               in case parse_O_idddi a SCIP_VARTYPE_CONTINUOUS c1
                         (dneg (SCIPinfinity S)) (SCIPinfinity S) 0 of
                    Inl e \<Rightarrow> (- 1, self1, Some e, Some s)
                  | Inr (_, t0, c, lhs0, rhs0, priority) \<Rightarrow>
                     (case init_type_bounds t0 lhs0 rhs0 of (t, lhs, rhs) \<Rightarrow>
                      case SCIPcreateVar S lhs rhs c t of (rc1, v, S1) \<Rightarrow>
                         if rc1 \<noteq> SCIP_OKAY
                         then (- 1, self1, PY_SCIP_ERROR rc1, Some (PySolver (solv\<lparr>scip := S1\<rparr>)))
                         else
                           (let self2 = self1\<lparr>variable := v, lower := lhs, upper := rhs\<rparr>
                            in case scip_exec (AddVar v) S1 of (rc2, S2) \<Rightarrow>
                               if rc2 \<noteq> SCIP_OKAY
                               then (- 1, self2, PY_SCIP_ERROR rc2, Some (PySolver (solv\<lparr>scip := S2\<rparr>)))
                               else
                                 (case (if priority \<noteq> 0
                                        then scip_exec (ChgVarBranchPriority v priority) S2
                                        else (SCIP_OKAY, S2)) of (rc3, S3) \<Rightarrow>
                                    if rc3 \<noteq> SCIP_OKAY
                                    then (- 1, self2, PY_SCIP_ERROR rc3, Some (PySolver (solv\<lparr>scip := S3\<rparr>)))
                                    else (0, self2, exc,
                                          Some (PySolver (solv\<lparr>scip := S3, first_var := v # first_var solv\<rparr>)))))))
          | _ \<Rightarrow> (- 1, self, Some (ModuleError ''invalid solver type''), Some s)))"

text \<open>
  Attribute access. The engine \<open>S\<close> is the one \<open>self->scip\<close> points to. Any name but
  \<open>priority\<close> goes to the interpreter's generic attribute functions.
\<close>

datatype getattr_result = Built pyobj | PyObject_GenericGetAttr

definition variable_getattr :: "SCIP \<Rightarrow> variable \<Rightarrow> pyobj \<Rightarrow> getattr_result" where
  "variable_getattr S self attr_name =
     (if PyUnicode_Check attr_name \<and> attr_name = PyUnicode ''priority''
      then Built (PyLong (SCIPvarGetBranchPriority S (variable self)))
      else PyObject_GenericGetAttr)"

datatype setattr_result = Ret int | PyObject_GenericSetAttr

definition variable_setattr ::
  "SCIP \<Rightarrow> variable \<Rightarrow> pyerror option \<Rightarrow> pyobj \<Rightarrow> pyobj \<Rightarrow>
     setattr_result \<times> pyerror option \<times> SCIP" where
  "variable_setattr S self exc attr_name val =
     (if PyUnicode_Check attr_name \<and> attr_name = PyUnicode ''priority''
      then
        (if PyLong_Check val
         then (case PyLong_AsLong val of (l, e) \<Rightarrow>
               case scip_exec (ChgVarBranchPriority (variable self) (long_to_int l)) S of (rc, S') \<Rightarrow>
                 if rc \<noteq> SCIP_OKAY then (Ret (- 1), PY_SCIP_ERROR rc, S')
                 else (Ret 0, raise_opt e exc, S'))
         else (Ret (- 1), Some (ModuleError ''invalid value for variable branching priority''), S))
      else (PyObject_GenericSetAttr, exc, S))"

text \<open>
  The three methods of a variable: return value, object, error indicator, engine. None of
  them looks at the error \<open>PyFloat_AsDouble\<close> may leave pending: the value it returned is
  used as it is, and the error is still pending when the method returns \<open>None\<close>.
\<close>

definition variable_set_coefficient ::
  "SCIP \<Rightarrow> variable \<Rightarrow> pyerror option \<Rightarrow> pyobj \<Rightarrow> pyret \<times> variable \<times> pyerror option \<times> SCIP" where
  "variable_set_coefficient S self exc arg =
     (if PyFloat_Check arg \<or> PyLong_Check arg
      then (case PyFloat_AsDouble arg of (d, e) \<Rightarrow>
            case scip_exec (VarChgObj (variable self) d) S of (rc, S') \<Rightarrow>
              if rc \<noteq> SCIP_OKAY then (PyNULL, self, PY_SCIP_ERROR rc, S')
              else (PyNone, self, raise_opt e exc, S'))
      else (PyNULL, self, Some (ModuleError ''invalid objective coefficient''), S))"

definition variable_tighten_lower ::
  "SCIP \<Rightarrow> variable \<Rightarrow> pyerror option \<Rightarrow> pyobj \<Rightarrow> pyret \<times> variable \<times> pyerror option \<times> SCIP" where
  "variable_tighten_lower S self exc arg =
     (if PyFloat_Check arg \<or> PyLong_Check arg
      then (case PyFloat_AsDouble arg of (d, e) \<Rightarrow>
            if dgt d (lower self)
            then (case scip_exec (ChgVarLb (variable self) d) S of (rc, S') \<Rightarrow>
                    if rc \<noteq> SCIP_OKAY then (PyNULL, self, PY_SCIP_ERROR rc, S')
                    else (PyNone, self\<lparr>lower := d\<rparr>, raise_opt e exc, S'))
            else (PyNone, self, raise_opt e exc, S))
      else (PyNULL, self, Some (ModuleError ''invalid lower bound''), S))"

definition variable_tighten_upper ::
  "SCIP \<Rightarrow> variable \<Rightarrow> pyerror option \<Rightarrow> pyobj \<Rightarrow> pyret \<times> variable \<times> pyerror option \<times> SCIP" where
  "variable_tighten_upper S self exc arg =
     (if PyFloat_Check arg \<or> PyLong_Check arg
      then (case PyFloat_AsDouble arg of (d, e) \<Rightarrow>
            if dlt d (upper self)
            then (case scip_exec (ChgVarUb (variable self) d) S of (rc, S') \<Rightarrow>
                    if rc \<noteq> SCIP_OKAY then (PyNULL, self, PY_SCIP_ERROR rc, S')
                    else (PyNone, self\<lparr>upper := d\<rparr>, raise_opt e exc, S'))
            else (PyNone, self, raise_opt e exc, S))
      else (PyNULL, self, Some (ModuleError ''invalid upper bound''), S))"

section \<open>The solver (src/unnamed/part_000)\<close>

text \<open>
  The first loop of \<open>_seed_primal\<close>: the error of the first entry that fails a check,
  in the order of the checks. \<open>p\<close> is \<open>self->scip\<close>.
\<close>

fun seed_check :: "nat \<Rightarrow> (pyobj \<times> pyobj) list \<Rightarrow> pyerror option" where
  "seed_check p [] = None"
| "seed_check p ((PyVariable v, val) # rest) =
     (if var_scip v \<noteq> p then Some (ModuleError ''variable not associated with solver'')
      else if \<not> (PyFloat_Check val \<or> PyLong_Check val)
      then Some (ModuleError ''solution values must be numeric'')
      else seed_check p rest)"
| "seed_check p ((_, val) # rest) = Some (ModuleError ''invalid variable type'')"

text \<open>
  The cast \<open>(variable *) key\<close> of the second loop. Every key has passed the first loop
  by then; the handle given for any other object is never used.
\<close>

fun key_variable :: "pyobj \<Rightarrow> nat" where
  "key_variable (PyVariable v) = variable v"
| "key_variable _ = 0"

text \<open>
  The value of an entry as a C double, with the error the conversion leaves pending. The
  cast of a C long to a double rounds as above.
\<close>

definition seed_value :: "pyobj \<Rightarrow> double \<times> pyerror option" where
  "seed_value val =
     (if PyFloat_Check val then PyFloat_AsDouble val
      else (case PyLong_AsLong val of (l, e) \<Rightarrow> (Fin (of_int (round_to_double l)), e)))"

text \<open>The second loop: only nonzero values are set; the return codes are not looked at.\<close>

fun seed_assign ::
  "(pyobj \<times> pyobj) list \<Rightarrow> SCIP \<Rightarrow> pyerror option \<Rightarrow> SCIP \<times> pyerror option" where
  "seed_assign [] S exc = (S, exc)"
| "seed_assign ((key, val) # rest) S exc =
     (case seed_value val of (d, e) \<Rightarrow>
        seed_assign rest
          (if dnonzero d then snd (scip_exec (SetSolVal (key_variable key) d) S) else S)
          (raise_opt e exc))"

text \<open>
  \<open>_seed_primal\<close>. Its only caller passes \<open>NULL\<close> or a dict (the parser checks the type),
  so the argument is the entries of the dict in iteration order, or \<open>None\<close>. The function
  always returns 0; what it reports is in the error indicator.
\<close>

definition seed_primal ::
  "solver \<Rightarrow> pyerror option \<Rightarrow> (pyobj \<times> pyobj) list option \<Rightarrow> solver \<times> pyerror option" where
  "seed_primal self exc solution =
     (case solution of
        None \<Rightarrow> (self, exc)
      | Some items \<Rightarrow>
          if length items > 0
          then (case seed_check (addr (scip self)) items of
                  Some e \<Rightarrow> (self, Some e)
                | None \<Rightarrow>
                   (let S1 = snd (scip_exec TransformProb (scip self));
                        S2 = snd (scip_exec CreateSol S1)
                    in case seed_assign items S2 exc of (S3, exc3) \<Rightarrow>
                       case SCIPcheckSolOrig S3 of (rc, feasible, S4) \<Rightarrow>
                         if rc \<noteq> SCIP_OKAY then (self\<lparr>scip := S4\<rparr>, PY_SCIP_ERROR rc)
                         else
                           (let exc5 = (if \<not> feasible
                                        then Some (ModuleError ''infeasible primal solution'')
                                        else exc3);
                                S5 = snd (scip_exec TrySolFree S4)
                            in (self\<lparr>scip := S5\<rparr>, exc5))))
          else (self, exc))"

text \<open>
  The arguments of \<open>maximize\<close> and \<open>minimize\<close>, each present or absent, and the engine's
  default limits (constants of a header that is not under src/, so they are a parameter).
\<close>

record optimize_args =
  arg_solution :: "pyobj option"
  arg_time :: "pyobj option"
  arg_gap :: "pyobj option"
  arg_absgap :: "pyobj option"
  arg_nsol :: "pyobj option"
  arg_offset :: "pyobj option"

record scip_defaults =
  SCIP_DEFAULT_LIMIT_TIME :: double
  SCIP_DEFAULT_LIMIT_GAP :: double
  SCIP_DEFAULT_LIMIT_SOLUTIONS :: int

text \<open>Format \<open>O!\<close> with the dict type: absent, a dict, or a type error.\<close>

fun parse_dict :: "pyobj option \<Rightarrow> pyerror + (pyobj \<times> pyobj) list option" where
  "parse_dict None = Inr None"
| "parse_dict (Some (PyDict items)) = Inr (Some items)"
| "parse_dict (Some _) = Inl TypeError"

definition parse_Odddid ::
  "optimize_args \<Rightarrow> double \<Rightarrow> double \<Rightarrow> double \<Rightarrow> int \<Rightarrow> double \<Rightarrow>
     pyerror + ((pyobj \<times> pyobj) list option \<times> double \<times> double \<times> double \<times> int \<times> double)" where
  "parse_Odddid a time gap absgap nsol offset =
     (case parse_dict (arg_solution a) of Inl e \<Rightarrow> Inl e | Inr solution \<Rightarrow>
     (case parse_d (arg_time a) time of Inl e \<Rightarrow> Inl e | Inr time' \<Rightarrow>
     (case parse_d (arg_gap a) gap of Inl e \<Rightarrow> Inl e | Inr gap' \<Rightarrow>
     (case parse_d (arg_absgap a) absgap of Inl e \<Rightarrow> Inl e | Inr absgap' \<Rightarrow>
     (case parse_i (arg_nsol a) nsol of Inl e \<Rightarrow> Inl e | Inr nsol' \<Rightarrow>
     (case parse_d (arg_offset a) offset of Inl e \<Rightarrow> Inl e | Inr offset' \<Rightarrow>
        Inr (solution, time', gap', absgap', nsol', offset')))))))"

text \<open>\<open>_optimize\<close> always returns 0; what it reports is in the error indicator.\<close>

definition optimize ::
  "scip_defaults \<Rightarrow> solver \<Rightarrow> pyerror option \<Rightarrow> optimize_args \<Rightarrow> solver \<times> pyerror option" where
  "optimize dflt self exc a =
     (case parse_Odddid a (SCIP_DEFAULT_LIMIT_TIME dflt) (SCIP_DEFAULT_LIMIT_GAP dflt)
             (SCIP_DEFAULT_LIMIT_GAP dflt) (SCIP_DEFAULT_LIMIT_SOLUTIONS dflt) (Fin 0) of
        Inl e \<Rightarrow> (self, Some e)
      | Inr (solution, time, gap, absgap, nsol, offset) \<Rightarrow>
         (case seed_primal self exc solution of (self1, exc1) \<Rightarrow>
            if exc1 \<noteq> None then (self1, exc1)
            else
              (let S1 = snd (scip_exec ClockReset (scip self1));
                   S2 = S1\<lparr>limit_time := time, limit_gap := gap, limit_absgap := absgap,
                          limit_solutions := nsol, objoffset := offset\<rparr>
               in case scip_exec Solve S2 of (rc, S3) \<Rightarrow>
                    if rc \<noteq> SCIP_OKAY then (self1\<lparr>scip := S3\<rparr>, PY_SCIP_ERROR rc)
                    else (self1\<lparr>scip := S3\<rparr>, exc1))))"

definition solver_maximize ::
  "scip_defaults \<Rightarrow> solver \<Rightarrow> pyerror option \<Rightarrow> optimize_args \<Rightarrow> pyret \<times> solver \<times> pyerror option" where
  "solver_maximize dflt self exc a =
     (case scip_exec (SetObjsense SCIP_OBJSENSE_MAXIMIZE) (scip self) of (rc, S1) \<Rightarrow>
        if rc \<noteq> SCIP_OKAY then (PyNULL, self\<lparr>scip := S1\<rparr>, PY_SCIP_ERROR rc)
        else (case optimize dflt (self\<lparr>scip := S1\<rparr>) exc a of (self2, exc2) \<Rightarrow>
                if exc2 \<noteq> None then (PyNULL, self2, exc2) else (PyNone, self2, exc2)))"

definition solver_minimize ::
  "scip_defaults \<Rightarrow> solver \<Rightarrow> pyerror option \<Rightarrow> optimize_args \<Rightarrow> pyret \<times> solver \<times> pyerror option" where
  "solver_minimize dflt self exc a =
     (case scip_exec (SetObjsense SCIP_OBJSENSE_MINIMIZE) (scip self) of (rc, S1) \<Rightarrow>
        if rc \<noteq> SCIP_OKAY then (PyNULL, self\<lparr>scip := S1\<rparr>, PY_SCIP_ERROR rc)
        else (case optimize dflt (self\<lparr>scip := S1\<rparr>) exc a of (self2, exc2) \<Rightarrow>
                if exc2 \<noteq> None then (PyNULL, self2, exc2) else (PyNone, self2, exc2)))"

definition solver_restart :: "solver \<Rightarrow> pyerror option \<Rightarrow> pyret \<times> solver \<times> pyerror option" where
  "solver_restart self exc =
     (case scip_exec FreeTransform (scip self) of (rc, S1) \<Rightarrow>
        if rc \<noteq> SCIP_OKAY then (PyNULL, self\<lparr>scip := S1\<rparr>, PY_SCIP_ERROR rc)
        else (PyNone, self\<lparr>scip := S1\<rparr>, exc))"

text \<open>
  \<open>solver_unconstrain\<close>: the return value of \<open>solver_restart\<close> is not looked at, the delete
  is issued whatever the restart did.
\<close>

definition solver_unconstrain ::
  "solver \<Rightarrow> pyerror option \<Rightarrow> pyobj \<Rightarrow> pyret \<times> solver \<times> pyerror option" where
  "solver_unconstrain self exc c =
     (case c of
        PyConstraint cons \<Rightarrow>
          (case solver_restart self exc of (_, self1, exc1) \<Rightarrow>
           case scip_exec (DelCons (constraint cons)) (scip self1) of (rc, S2) \<Rightarrow>
             if rc \<noteq> SCIP_OKAY then (PyNULL, self1\<lparr>scip := S2\<rparr>, PY_SCIP_ERROR rc)
             else (PyNone, self1\<lparr>scip := S2\<rparr>, exc1))
      | _ \<Rightarrow> (PyNULL, self, Some (ModuleError ''invalid constraint type'')))"

section \<open>Notions used by the properties\<close>

text \<open>C's \<open><=\<close> on doubles, and the interval \<open>[0,1]\<close>.\<close>

definition dle :: "double \<Rightarrow> double \<Rightarrow> bool" where
  "dle a b = (dlt a b \<or> (a = b \<and> a \<noteq> NaN))"

definition in_unit :: "double \<Rightarrow> bool" where
  "in_unit d = (dle (Fin 0) d \<and> dle d (Fin 1))"

text \<open>
  The bounds a declaration asks for: the argument, or the engine's infinity when the
  argument is absent.
\<close>

definition requested_lower :: "init_args \<Rightarrow> SCIP \<Rightarrow> double" where
  "requested_lower a S =
     (case parse_d (arg_lower a) (dneg (SCIPinfinity S)) of Inr l \<Rightarrow> l | Inl _ \<Rightarrow> NaN)"

definition requested_upper :: "init_args \<Rightarrow> SCIP \<Rightarrow> double" where
  "requested_upper a S =
     (case parse_d (arg_upper a) (SCIPinfinity S) of Inr u \<Rightarrow> u | Inl _ \<Rightarrow> NaN)"

text \<open>The engine accepts a call issued now.\<close>

definition accepts :: "SCIP \<Rightarrow> scip_call \<Rightarrow> bool" where
  "accepts S c = (retcode_of S (calls S) c = SCIP_OKAY)"

text \<open>The engine after the restart that \<open>solver_unconstrain\<close> issues.\<close>

definition after_restart :: "SCIP \<Rightarrow> SCIP" where
  "after_restart S = snd (scip_exec FreeTransform S)"

fun is_constraint :: "pyobj \<Rightarrow> bool" where
  "is_constraint (PyConstraint _) = True"
| "is_constraint _ = False"

fun is_solver :: "pyobj \<Rightarrow> bool" where
  "is_solver (PySolver _) = True"
| "is_solver _ = False"

text \<open>
  A seed entry is valid for the session whose engine is at \<open>p\<close>: the key is a variable
  of that session and the value is a float or an int.
\<close>

fun entry_valid :: "nat \<Rightarrow> pyobj \<times> pyobj \<Rightarrow> bool" where
  "entry_valid p (PyVariable v, val) = (var_scip v = p \<and> (PyFloat_Check val \<or> PyLong_Check val))"
| "entry_valid p (_, val) = False"

text \<open>
  A seed argument is malformed: it is not a dict, or it is a dict with an entry that is
  not valid.
\<close>

fun malformed_seed :: "nat \<Rightarrow> pyobj option \<Rightarrow> bool" where
  "malformed_seed p None = False"
| "malformed_seed p (Some (PyDict items)) = (\<not> list_all (entry_valid p) items)"
| "malformed_seed p (Some _) = True"

text \<open>The engine calls of seeding, and the calls issued between two engine states.\<close>

fun is_seed_call :: "scip_call \<Rightarrow> bool" where
  "is_seed_call TransformProb = True"
| "is_seed_call CreateSol = True"
| "is_seed_call (SetSolVal _ _) = True"
| "is_seed_call CheckSolOrig = True"
| "is_seed_call TrySolFree = True"
| "is_seed_call _ = False"

definition new_calls :: "SCIP \<Rightarrow> SCIP \<Rightarrow> scip_call list" where
  "new_calls S S' = drop (length (calls S)) (calls S')"

definition same_limits :: "SCIP \<Rightarrow> SCIP \<Rightarrow> bool" where
  "same_limits S S' = (limit_time S' = limit_time S \<and> limit_gap S' = limit_gap S \<and>
     limit_absgap S' = limit_absgap S \<and> limit_solutions S' = limit_solutions S \<and>
     objoffset S' = objoffset S)"

text \<open>\<open>S'\<close> is reached from \<open>S\<close> by calls of seeding only.\<close>

definition seed_step :: "SCIP \<Rightarrow> SCIP \<Rightarrow> bool" where
  "seed_step S S' = (calls S' = calls S @ new_calls S S' \<and> list_all is_seed_call (new_calls S S')
     \<and> same_limits S S' \<and> sense S' = sense S \<and> addr S' = addr S
     \<and> retcode_of S' = retcode_of S \<and> feasible_of S' = feasible_of S)"

text \<open>
  The candidate of \<open>_seed_primal\<close> when the feasibility check is reached: the engine after
  the transform, the new solution and the assignments, with the error indicator.
\<close>

definition seed_candidate ::
  "solver \<Rightarrow> pyerror option \<Rightarrow> (pyobj \<times> pyobj) list \<Rightarrow> SCIP \<times> pyerror option" where
  "seed_candidate self exc items =
     seed_assign items (snd (scip_exec CreateSol (snd (scip_exec TransformProb (scip self))))) exc"

subsection \<open>A concrete session\<close>

text \<open>An engine that accepts every call and finds every candidate feasible.\<close>

definition engine0 :: SCIP where
  "engine0 = \<lparr>addr = 1, num_infinity = Fin (10 ^ 20), stage = SCIP_STAGE_PROBLEM,
     sense = SCIP_OBJSENSE_MINIMIZE, branchpriority = (\<lambda>_. 0), nvars = 0,
     limit_time = Fin (10 ^ 20), limit_gap = Fin 0, limit_absgap = Fin 0,
     limit_solutions = - 1, objoffset = Fin 0, calls = [],
     retcode_of = (\<lambda>_ _. SCIP_OKAY), feasible_of = (\<lambda>_. True)\<rparr>"

definition solver0 :: solver where
  "solver0 = \<lparr>scip = engine0, first_var = [], first_cons = []\<rparr>"

definition solved_solver :: solver where
  "solved_solver = \<lparr>scip = engine0\<lparr>stage := SCIP_STAGE_SOLVED\<rparr>, first_var = [], first_cons = [7]\<rparr>"

definition variable0 :: variable where
  "variable0 = \<lparr>var_scip = 0, variable = 0, lower = Fin 0, upper = Fin 0\<rparr>"

definition variable1 :: variable where
  "variable1 = \<lparr>var_scip = 1, variable = 0, lower = Fin 0, upper = Fin 10\<rparr>"

definition binary_args :: "pyobj \<Rightarrow> pyobj \<Rightarrow> init_args" where
  "binary_args l u = \<lparr>arg_solver = Some (PySolver solver0),
     arg_vartype = Some (PyLong SCIP_VARTYPE_BINARY), arg_coefficient = Some (PyFloat (Fin 1)),
     arg_lower = Some l, arg_upper = Some u, arg_priority = None\<rparr>"

definition constraint1 :: constraint where
  "constraint1 = \<lparr>cons_scip = 1, constraint = 7\<rparr>"

text \<open>A constraint of another session, whose engine is at address 2.\<close>

definition foreign_constraint :: constraint where
  "foreign_constraint = \<lparr>cons_scip = 2, constraint = 9\<rparr>"

definition dflt0 :: scip_defaults where
  "dflt0 = \<lparr>SCIP_DEFAULT_LIMIT_TIME = Fin (10 ^ 20), SCIP_DEFAULT_LIMIT_GAP = Fin 0,
            SCIP_DEFAULT_LIMIT_SOLUTIONS = - 1\<rparr>"

definition seed_args :: "pyobj option \<Rightarrow> optimize_args" where
  "seed_args s = \<lparr>arg_solution = s, arg_time = None, arg_gap = None, arg_absgap = None,
                  arg_nsol = None, arg_offset = None\<rparr>"

text \<open>An engine that accepts every call and finds no candidate feasible.\<close>

definition engine_infeasible :: SCIP where
  "engine_infeasible = engine0\<lparr>feasible_of := (\<lambda>_. False)\<rparr>"

definition solver_infeasible :: solver where
  "solver_infeasible = \<lparr>scip = engine_infeasible, first_var = [0], first_cons = []\<rparr>"

text \<open>A seed for \<open>variable1\<close>, and a seed whose key is an int.\<close>

definition seed1 :: "(pyobj \<times> pyobj) list" where
  "seed1 = [(PyVariable variable1, PyFloat (Fin 3))]"

definition bad_seed :: "(pyobj \<times> pyobj) list" where
  "bad_seed = [(PyLong 1, PyFloat (Fin 2))]"

text \<open>A declaration whose solver argument is an int.\<close>

definition no_solver_args :: init_args where
  "no_solver_args = \<lparr>arg_solver = Some (PyLong 1), arg_vartype = None, arg_coefficient = None,
     arg_lower = None, arg_upper = None, arg_priority = None\<rparr>"

text \<open>A SOLVED session whose engine refuses every delete of a constraint (with status 0).\<close>

definition solver_no_delete :: solver where
  "solver_no_delete = \<lparr>scip = engine0\<lparr>stage := SCIP_STAGE_SOLVED,
       retcode_of := (\<lambda>_ c. case c of DelCons _ \<Rightarrow> 0 | _ \<Rightarrow> SCIP_OKAY)\<rparr>,
     first_var = [], first_cons = [7]\<rparr>"

text \<open>An engine that refuses every call (with status 0).\<close>

definition engine_refusing :: SCIP where
  "engine_refusing = engine0\<lparr>retcode_of := (\<lambda>_ _. 0)\<rparr>"

section \<open>Facts about the engine model\<close>

lemma scip_exec_calls [simp]: "calls (snd (scip_exec c S)) = calls S @ [c]"
  by (cases c) (simp_all add: scip_exec_def Let_def)

lemma scip_exec_retcode_of [simp]: "retcode_of (snd (scip_exec c S)) = retcode_of S"
  by (cases c) (simp_all add: scip_exec_def Let_def)

lemma scip_exec_feasible_of [simp]: "feasible_of (snd (scip_exec c S)) = feasible_of S"
  by (cases c) (simp_all add: scip_exec_def Let_def)

lemma scip_exec_addr [simp]: "addr (snd (scip_exec c S)) = addr S"
  by (cases c) (simp_all add: scip_exec_def Let_def)

lemma scip_exec_same_limits [simp]: "same_limits S (snd (scip_exec c S))"
  by (cases c) (simp_all add: scip_exec_def Let_def same_limits_def)

lemma same_limits_refl [simp]: "same_limits S S"
  by (simp add: same_limits_def)

lemma same_limits_trans: "same_limits S S' \<Longrightarrow> same_limits S' S'' \<Longrightarrow> same_limits S S''"
  by (simp add: same_limits_def)

lemma dlt_irrefl: "\<not> dlt d d"
  by (cases d) auto

lemma long_to_int_id: "INT_MIN \<le> n \<Longrightarrow> n \<le> INT_MAX \<Longrightarrow> long_to_int n = n"
  unfolding long_to_int_def INT_MIN_def INT_MAX_def
  by (simp add: sint_sbintrunc' signed_take_bit_int_eq_self)

section \<open>Declaring a variable\<close>

lemma parse_O_idddi_Inr:
  "parse_O_idddi a t c l r p = Inr (s, t', c', l', r', p') \<longleftrightarrow>
     arg_solver a = Some s \<and> parse_i (arg_vartype a) t = Inr t' \<and>
     parse_d (arg_coefficient a) c = Inr c' \<and> parse_d (arg_lower a) l = Inr l' \<and>
     parse_d (arg_upper a) r = Inr r' \<and> parse_i (arg_priority a) p = Inr p'"
  by (auto simp: parse_O_idddi_def split: option.splits sum.splits)

lemma init_type_bounds_binary:
  "init_type_bounds SCIP_VARTYPE_BINARY l u =
     (SCIP_VARTYPE_BINARY, if dlt l (Fin 0) then Fin 0 else l, if dgt u (Fin 1) then Fin 1 else u)"
  by (simp add: init_type_bounds_def)

text \<open>
  A declaration that succeeds caches the bounds that \<open>init_type_bounds\<close> computes from the
  parsed type and bounds.
\<close>

lemma variable_init_bounds:
  assumes ok: "variable_init self exc a c0 = (0, self', exc', s')"
  shows "\<exists>solv t0 l u. arg_solver a = Some (PySolver solv)
      \<and> parse_i (arg_vartype a) SCIP_VARTYPE_CONTINUOUS = Inr t0
      \<and> parse_d (arg_lower a) (dneg (SCIPinfinity (scip solv))) = Inr l
      \<and> parse_d (arg_upper a) (SCIPinfinity (scip solv)) = Inr u
      \<and> lower self' = fst (snd (init_type_bounds t0 l u))
      \<and> upper self' = snd (snd (init_type_bounds t0 l u))"
proof -
  obtain s t1 c1 l1 r1 p1 where
    P1: "parse_O_idddi a 0 c0 (Fin 0) (Fin 0) 0 = Inr (s, t1, c1, l1, r1, p1)"
    using ok by (cases "parse_O_idddi a 0 c0 (Fin 0) (Fin 0) 0") (auto simp: variable_init_def)
  then have as: "arg_solver a = Some s" by (simp add: parse_O_idddi_Inr)
  obtain solv where s: "s = PySolver solv"
    using ok P1 by (cases s) (auto simp: variable_init_def)
  let ?S = "scip solv"
  obtain s2 t0 c l u p where
    P2: "parse_O_idddi a SCIP_VARTYPE_CONTINUOUS c1 (dneg (SCIPinfinity ?S)) (SCIPinfinity ?S) 0
           = Inr (s2, t0, c, l, u, p)"
    using ok P1 s
    by (cases "parse_O_idddi a SCIP_VARTYPE_CONTINUOUS c1 (dneg (SCIPinfinity ?S)) (SCIPinfinity ?S) 0")
       (auto simp: variable_init_def Let_def)
  obtain t lhs rhs where B: "init_type_bounds t0 l u = (t, lhs, rhs)"
    by (cases "init_type_bounds t0 l u") auto
  have "lower self' = lhs \<and> upper self' = rhs"
    using ok P1 s P2 B
    by (auto simp: variable_init_def Let_def PY_SCIP_ERROR_def split: prod.splits if_splits)
  with as s P2 B show ?thesis
    by (intro exI[of _ solv] exI[of _ t0] exI[of _ l] exI[of _ u]) (auto simp: parse_O_idddi_Inr)
qed

lemma clamp_lower_unit: "dle l (Fin 1) \<Longrightarrow> in_unit (if dlt l (Fin 0) then Fin 0 else l)"
  by (cases l) (auto simp: in_unit_def dle_def)

lemma clamp_upper_unit: "dle (Fin 0) u \<Longrightarrow> in_unit (if dgt u (Fin 1) then Fin 1 else u)"
  by (cases u) (auto simp: in_unit_def dle_def dgt_def)

lemma clamp_lower_not_below: "\<not> dlt (if dlt l (Fin 0) then Fin 0 else l) (Fin 0)"
  by simp

lemma clamp_upper_not_above: "\<not> dgt (if dgt u (Fin 1) then Fin 1 else u) (Fin 1)"
  by (simp add: dgt_def)

lemmas init_defs = variable_init_def parse_O_idddi_def init_type_bounds_def SCIPcreateVar_def
  scip_exec_def SCIPinfinity_def PY_SCIP_ERROR_def SCIP_OKAY_def
  SCIP_VARTYPE_BINARY_def SCIP_VARTYPE_INTEGER_def SCIP_VARTYPE_IMPLINT_def
  SCIP_VARTYPE_CONTINUOUS_def INT_MIN_def INT_MAX_def dgt_def DBL_LIMIT_def round_to_double_def
  engine0_def solver0_def variable0_def binary_args_def

text \<open>
  Claim C1, as the code has it. A binary variable that has been declared caches the
  requested lower bound raised to 0 when it was below 0, and the requested upper bound
  lowered to 1 when it was above 1. So the cached lower bound is never below 0 and the
  cached upper bound never above 1; the cached lower bound lies in \<open>[0,1]\<close> when the
  requested one is at most 1, and the cached upper bound lies in \<open>[0,1]\<close> when the
  requested one is at least 0. A requested lower bound above 1 and a requested upper
  bound below 0 are kept as they are.
\<close>

theorem binary_bounds_clamped:
  assumes solv: "arg_solver a = Some (PySolver solv)"
    and bin: "arg_vartype a = Some (PyLong SCIP_VARTYPE_BINARY)"
    and ok: "variable_init self exc a c0 = (0, self', exc', s')"
  shows "lower self' = (if dlt (requested_lower a (scip solv)) (Fin 0) then Fin 0
                        else requested_lower a (scip solv))
       \<and> upper self' = (if dgt (requested_upper a (scip solv)) (Fin 1) then Fin 1
                        else requested_upper a (scip solv))
       \<and> \<not> dlt (lower self') (Fin 0) \<and> \<not> dgt (upper self') (Fin 1)
       \<and> (dle (requested_lower a (scip solv)) (Fin 1) \<longrightarrow> in_unit (lower self'))
       \<and> (dle (Fin 0) (requested_upper a (scip solv)) \<longrightarrow> in_unit (upper self'))"
proof -
  from variable_init_bounds [OF ok] solv obtain t0 l u where
    t0: "parse_i (arg_vartype a) SCIP_VARTYPE_CONTINUOUS = Inr t0"
    and l: "parse_d (arg_lower a) (dneg (SCIPinfinity (scip solv))) = Inr l"
    and u: "parse_d (arg_upper a) (SCIPinfinity (scip solv)) = Inr u"
    and lo: "lower self' = fst (snd (init_type_bounds t0 l u))"
    and up: "upper self' = snd (snd (init_type_bounds t0 l u))"
    by auto
  from t0 bin have "t0 = SCIP_VARTYPE_BINARY"
    by (simp add: SCIP_VARTYPE_BINARY_def INT_MIN_def INT_MAX_def)
  with lo up have lo': "lower self' = (if dlt l (Fin 0) then Fin 0 else l)"
    and up': "upper self' = (if dgt u (Fin 1) then Fin 1 else u)"
    by (simp_all add: init_type_bounds_binary)
  have rl: "requested_lower a (scip solv) = l" and ru: "requested_upper a (scip solv) = u"
    using l u by (simp_all add: requested_lower_def requested_upper_def)
  show ?thesis
    unfolding rl ru lo' up'
    using clamp_lower_unit [of l] clamp_upper_unit [of u]
      clamp_lower_not_below [of l] clamp_upper_not_above [of u]
    by blast
qed

text \<open>The scenario of the spec: a binary variable asked for with bounds \<open>[-5, 5]\<close> gets \<open>[0, 1]\<close>.\<close>

theorem binary_bounds_clamped_witness:
  "lower (fst (snd (variable_init variable0 None (binary_args (PyLong (- 5)) (PyLong 5)) (Fin 0)))) = Fin 0
   \<and> upper (fst (snd (variable_init variable0 None (binary_args (PyLong (- 5)) (PyLong 5)) (Fin 0)))) = Fin 1
   \<and> in_unit (lower (fst (snd (variable_init variable0 None (binary_args (PyLong (- 5)) (PyLong 5)) (Fin 0)))))
   \<and> in_unit (upper (fst (snd (variable_init variable0 None (binary_args (PyLong (- 5)) (PyLong 5)) (Fin 0)))))"
proof -
  let ?r = "variable_init variable0 None (binary_args (PyLong (- 5)) (PyLong 5)) (Fin 0)"
  have ok: "?r = (0, fst (snd ?r), fst (snd (snd ?r)), snd (snd (snd ?r)))"
    by (simp add: init_defs)
  have a1: "arg_solver (binary_args (PyLong (- 5)) (PyLong 5)) = Some (PySolver solver0)"
    and a2: "arg_vartype (binary_args (PyLong (- 5)) (PyLong 5)) = Some (PyLong SCIP_VARTYPE_BINARY)"
    by (simp_all add: binary_args_def)
  have rl: "requested_lower (binary_args (PyLong (- 5)) (PyLong 5)) (scip solver0) = Fin (- 5)"
    and ru: "requested_upper (binary_args (PyLong (- 5)) (PyLong 5)) (scip solver0) = Fin 5"
    by (simp_all add: requested_lower_def requested_upper_def binary_args_def DBL_LIMIT_def
          round_to_double_def)
  show ?thesis
    using binary_bounds_clamped [OF a1 a2 ok]
    by (auto simp add: rl ru dgt_def dle_def)
qed

text \<open>
  Claim C1 as stated fails: a binary variable asked for with lower bound 5 and upper bound
  \<open>-3\<close> is created in the engine with exactly these bounds and, the engine accepting the
  calls, is declared with exactly these cached bounds; neither lies in \<open>[0,1]\<close>.
\<close>

theorem binary_bounds_counterexample:
  "variable_init variable0 None (binary_args (PyLong 5) (PyLong (- 3))) (Fin 0) =
     (0, variable0\<lparr>var_scip := 1, variable := 0, lower := Fin 5, upper := Fin (- 3)\<rparr>, None,
      Some (PySolver (solver0\<lparr>scip := engine0\<lparr>nvars := 1,
          calls := [CreateVar (Fin 5) (Fin (- 3)) (Fin 1) SCIP_VARTYPE_BINARY, AddVar 0]\<rparr>,
        first_var := [0]\<rparr>)))
   \<and> \<not> in_unit (Fin 5) \<and> \<not> in_unit (Fin (- 3))"
  by (simp add: init_defs in_unit_def dle_def)

section \<open>Tightening a bound\<close>

lemma tighten_lower_noop:
  "PyFloat_Check arg \<or> PyLong_Check arg \<Longrightarrow> PyFloat_AsDouble arg = (d, e) \<Longrightarrow>
   \<not> dgt d (lower self) \<Longrightarrow>
     variable_tighten_lower S self exc arg = (PyNone, self, raise_opt e exc, S)"
  by (simp add: variable_tighten_lower_def)

lemma tighten_upper_noop:
  "PyFloat_Check arg \<or> PyLong_Check arg \<Longrightarrow> PyFloat_AsDouble arg = (d, e) \<Longrightarrow>
   \<not> dlt d (upper self) \<Longrightarrow>
     variable_tighten_upper S self exc arg = (PyNone, self, raise_opt e exc, S)"
  by (simp add: variable_tighten_upper_def)

lemma tighten_lower_commit:
  "PyFloat_Check arg \<or> PyLong_Check arg \<Longrightarrow> PyFloat_AsDouble arg = (d, e) \<Longrightarrow>
   dgt d (lower self) \<Longrightarrow>
     variable_tighten_lower S self exc arg =
       (if accepts S (ChgVarLb (variable self) d)
        then (PyNone, self\<lparr>lower := d\<rparr>, raise_opt e exc,
              S\<lparr>calls := calls S @ [ChgVarLb (variable self) d]\<rparr>)
        else (PyNULL, self, PY_SCIP_ERROR (retcode_of S (calls S) (ChgVarLb (variable self) d)),
              S\<lparr>calls := calls S @ [ChgVarLb (variable self) d]\<rparr>))"
  by (simp add: variable_tighten_lower_def scip_exec_def Let_def accepts_def)

lemma tighten_upper_commit:
  "PyFloat_Check arg \<or> PyLong_Check arg \<Longrightarrow> PyFloat_AsDouble arg = (d, e) \<Longrightarrow>
   dlt d (upper self) \<Longrightarrow>
     variable_tighten_upper S self exc arg =
       (if accepts S (ChgVarUb (variable self) d)
        then (PyNone, self\<lparr>upper := d\<rparr>, raise_opt e exc,
              S\<lparr>calls := calls S @ [ChgVarUb (variable self) d]\<rparr>)
        else (PyNULL, self, PY_SCIP_ERROR (retcode_of S (calls S) (ChgVarUb (variable self) d)),
              S\<lparr>calls := calls S @ [ChgVarUb (variable self) d]\<rparr>))"
  by (simp add: variable_tighten_upper_def scip_exec_def Let_def accepts_def)

text \<open>
  Claim C6, as the code has it. Take a numeric argument (a float or an int) that
  \<open>PyFloat_AsDouble\<close> converts without an error, and let \<open>d\<close> be the double it gives:
  \<^item> when \<open>d\<close> is not strictly greater than the cached lower bound, \<open>tighten_lower\<close> returns
    \<open>None\<close> and leaves the variable, the error indicator and the engine (so also its record
    of calls) as they were; likewise \<open>tighten_upper\<close> when \<open>d\<close> is not strictly less than
    the cached upper bound;
  \<^item> when \<open>d\<close> is strictly past the cached bound, the change of the bound to \<open>d\<close> is issued
    to the engine; when the engine accepts it the call returns \<open>None\<close> with the cached bound
    set to \<open>d\<close> and nothing else of the variable changed; when the engine refuses it the
    call raises the engine's error and the variable is as it was;
  \<^item> a call that returned \<open>None\<close>, repeated with the same value, is a no-op.
\<close>

theorem tighten_monotone_idempotent:
  assumes num: "PyFloat_Check arg \<or> PyLong_Check arg"
    and conv: "PyFloat_AsDouble arg = (d, None)"
  shows
   "(\<not> dgt d (lower self) \<longrightarrow>
        variable_tighten_lower S self exc arg = (PyNone, self, exc, S))
    \<and> (\<not> dlt d (upper self) \<longrightarrow>
        variable_tighten_upper S self exc arg = (PyNone, self, exc, S))
    \<and> (dgt d (lower self) \<longrightarrow>
        calls (snd (snd (snd (variable_tighten_lower S self exc arg)))) =
          calls S @ [ChgVarLb (variable self) d]
        \<and> (accepts S (ChgVarLb (variable self) d) \<longrightarrow>
             fst (variable_tighten_lower S self exc arg) = PyNone
             \<and> fst (snd (variable_tighten_lower S self exc arg)) = self\<lparr>lower := d\<rparr>
             \<and> fst (snd (snd (variable_tighten_lower S self exc arg))) = exc)
        \<and> (\<not> accepts S (ChgVarLb (variable self) d) \<longrightarrow>
             fst (variable_tighten_lower S self exc arg) = PyNULL
             \<and> fst (snd (variable_tighten_lower S self exc arg)) = self
             \<and> fst (snd (snd (variable_tighten_lower S self exc arg))) =
                 PY_SCIP_ERROR (retcode_of S (calls S) (ChgVarLb (variable self) d))))
    \<and> (dlt d (upper self) \<longrightarrow>
        calls (snd (snd (snd (variable_tighten_upper S self exc arg)))) =
          calls S @ [ChgVarUb (variable self) d]
        \<and> (accepts S (ChgVarUb (variable self) d) \<longrightarrow>
             fst (variable_tighten_upper S self exc arg) = PyNone
             \<and> fst (snd (variable_tighten_upper S self exc arg)) = self\<lparr>upper := d\<rparr>
             \<and> fst (snd (snd (variable_tighten_upper S self exc arg))) = exc)
        \<and> (\<not> accepts S (ChgVarUb (variable self) d) \<longrightarrow>
             fst (variable_tighten_upper S self exc arg) = PyNULL
             \<and> fst (snd (variable_tighten_upper S self exc arg)) = self
             \<and> fst (snd (snd (variable_tighten_upper S self exc arg))) =
                 PY_SCIP_ERROR (retcode_of S (calls S) (ChgVarUb (variable self) d))))
    \<and> (fst (variable_tighten_lower S self exc arg) = PyNone \<longrightarrow>
        variable_tighten_lower (snd (snd (snd (variable_tighten_lower S self exc arg))))
            (fst (snd (variable_tighten_lower S self exc arg)))
            (fst (snd (snd (variable_tighten_lower S self exc arg)))) arg
          = (PyNone, snd (variable_tighten_lower S self exc arg)))
    \<and> (fst (variable_tighten_upper S self exc arg) = PyNone \<longrightarrow>
        variable_tighten_upper (snd (snd (snd (variable_tighten_upper S self exc arg))))
            (fst (snd (variable_tighten_upper S self exc arg)))
            (fst (snd (snd (variable_tighten_upper S self exc arg)))) arg
          = (PyNone, snd (variable_tighten_upper S self exc arg)))"
proof -
  note nl = tighten_lower_noop [OF num conv, simplified raise_opt_def option.case]
  note nu = tighten_upper_noop [OF num conv, simplified raise_opt_def option.case]
  note cl = tighten_lower_commit [OF num conv, simplified raise_opt_def option.case]
  note cu = tighten_upper_commit [OF num conv, simplified raise_opt_def option.case]
  have idl: "fst (variable_tighten_lower S self exc arg) = PyNone \<Longrightarrow>
        variable_tighten_lower (snd (snd (snd (variable_tighten_lower S self exc arg))))
            (fst (snd (variable_tighten_lower S self exc arg)))
            (fst (snd (snd (variable_tighten_lower S self exc arg)))) arg
          = (PyNone, snd (variable_tighten_lower S self exc arg))"
  proof (cases "dgt d (lower self)")
    case False
    then show ?thesis by (simp add: nl)
  next
    case True
    assume "fst (variable_tighten_lower S self exc arg) = PyNone"
    with True have r: "variable_tighten_lower S self exc arg =
        (PyNone, self\<lparr>lower := d\<rparr>, exc, S\<lparr>calls := calls S @ [ChgVarLb (variable self) d]\<rparr>)"
      by (simp add: cl split: if_splits)
    have "\<not> dgt d (lower (self\<lparr>lower := d\<rparr>))" by (simp add: dgt_def dlt_irrefl)
    then show ?thesis unfolding r by (simp add: nl)
  qed
  have idu: "fst (variable_tighten_upper S self exc arg) = PyNone \<Longrightarrow>
        variable_tighten_upper (snd (snd (snd (variable_tighten_upper S self exc arg))))
            (fst (snd (variable_tighten_upper S self exc arg)))
            (fst (snd (snd (variable_tighten_upper S self exc arg)))) arg
          = (PyNone, snd (variable_tighten_upper S self exc arg))"
  proof (cases "dlt d (upper self)")
    case False
    then show ?thesis by (simp add: nu)
  next
    case True
    assume "fst (variable_tighten_upper S self exc arg) = PyNone"
    with True have r: "variable_tighten_upper S self exc arg =
        (PyNone, self\<lparr>upper := d\<rparr>, exc, S\<lparr>calls := calls S @ [ChgVarUb (variable self) d]\<rparr>)"
      by (simp add: cu split: if_splits)
    have "\<not> dlt d (upper (self\<lparr>upper := d\<rparr>))" by (simp add: dlt_irrefl)
    then show ?thesis unfolding r by (simp add: nu)
  qed
  show ?thesis
    using idl idu by (simp add: nl nu cl cu)
qed

text \<open>
  On a variable with bounds \<open>[0, 10]\<close> and an engine that accepts every call: the value 20
  tightens the lower bound and is a no-op as an upper bound; the value \<open>-5\<close> is a no-op as
  a lower bound and tightens the upper bound; the value 20 again is a no-op.
\<close>

theorem tighten_monotone_idempotent_witness:
  "variable_tighten_lower engine0 variable1 None (PyLong 20) =
     (PyNone, variable1\<lparr>lower := Fin 20\<rparr>, None, engine0\<lparr>calls := [ChgVarLb 0 (Fin 20)]\<rparr>)
   \<and> variable_tighten_upper engine0 variable1 None (PyLong 20) = (PyNone, variable1, None, engine0)
   \<and> variable_tighten_lower engine0 variable1 None (PyFloat (Fin (- 5))) = (PyNone, variable1, None, engine0)
   \<and> variable_tighten_upper engine0 variable1 None (PyFloat (Fin (- 5))) =
     (PyNone, variable1\<lparr>upper := Fin (- 5)\<rparr>, None, engine0\<lparr>calls := [ChgVarUb 0 (Fin (- 5))]\<rparr>)
   \<and> variable_tighten_lower (engine0\<lparr>calls := [ChgVarLb 0 (Fin 20)]\<rparr>) (variable1\<lparr>lower := Fin 20\<rparr>)
        None (PyLong 20) =
     (PyNone, variable1\<lparr>lower := Fin 20\<rparr>, None, engine0\<lparr>calls := [ChgVarLb 0 (Fin 20)]\<rparr>)"
proof -
  have n: "PyFloat_Check (PyLong 20) \<or> PyLong_Check (PyLong 20)"
    "PyFloat_Check (PyFloat (Fin (- 5))) \<or> PyLong_Check (PyFloat (Fin (- 5)))"
    by simp_all
  have v: "PyFloat_AsDouble (PyLong 20) = (Fin 20, None)"
    "PyFloat_AsDouble (PyFloat (Fin (- 5))) = (Fin (- 5), None)"
    by (simp_all add: DBL_LIMIT_def round_to_double_def)
  have l20: "variable_tighten_lower engine0 variable1 None (PyLong 20) =
     (PyNone, variable1\<lparr>lower := Fin 20\<rparr>, None, engine0\<lparr>calls := [ChgVarLb 0 (Fin 20)]\<rparr>)"
    by (simp add: tighten_lower_commit [OF n(1) v(1)] dgt_def accepts_def raise_opt_def
          variable1_def engine0_def)
  have u5: "variable_tighten_upper engine0 variable1 None (PyFloat (Fin (- 5))) =
     (PyNone, variable1\<lparr>upper := Fin (- 5)\<rparr>, None, engine0\<lparr>calls := [ChgVarUb 0 (Fin (- 5))]\<rparr>)"
    by (simp add: tighten_upper_commit [OF n(2) v(2)] accepts_def raise_opt_def
          variable1_def engine0_def)
  have b: "\<not> dlt (Fin 20) (upper variable1)" "\<not> dgt (Fin (- 5)) (lower variable1)"
    by (simp_all add: variable1_def dgt_def)
  show ?thesis
    using tighten_monotone_idempotent [OF n(1) v(1), of variable1 engine0 None]
      tighten_monotone_idempotent [OF n(2) v(2), of variable1 engine0 None] b
    by (simp add: l20 u5)
qed

text \<open>
  Claim C6 as stated fails twice. The int \<open>10^400\<close> is not less than the cached upper bound
  10, yet \<open>tighten_upper\<close> with it issues a change of the bound to the engine and caches
  \<open>-1\<close>: the conversion fails with \<open>-1.0\<close> and an error the method does not look at. And
  with an engine that refuses the change, the value 20, strictly greater than the cached
  lower bound 0, leaves the cached lower bound at 0.
\<close>

theorem tighten_counterexample:
  "upper variable1 = Fin 10 \<and> \<not> ((10::int) ^ 400 < 10)
   \<and> variable_tighten_upper engine0 variable1 None (PyLong (10 ^ 400)) =
       (PyNone, variable1\<lparr>upper := Fin (- 1)\<rparr>, Some OverflowError,
        engine0\<lparr>calls := [ChgVarUb 0 (Fin (- 1))]\<rparr>)
   \<and> lower variable1 = Fin 0 \<and> (0::int) < 20
   \<and> variable_tighten_lower engine_refusing variable1 None (PyLong 20) =
       (PyNULL, variable1, Some (ScipError 0), engine_refusing\<lparr>calls := [ChgVarLb 0 (Fin 20)]\<rparr>)"
  by (simp add: variable_tighten_upper_def variable_tighten_lower_def DBL_LIMIT_def
        round_to_double_def scip_exec_def Let_def raise_opt_def PY_SCIP_ERROR_def dgt_def
        variable1_def engine_refusing_def engine0_def SCIP_OKAY_def)

section \<open>The priority attribute\<close>

lemma getattr_priority:
  "variable_getattr S self (PyUnicode ''priority'') = Built (PyLong (branchpriority S (variable self)))"
  by (simp add: variable_getattr_def SCIPvarGetBranchPriority_def)

lemma setattr_priority_int:
  assumes "INT_MIN \<le> n" "n \<le> INT_MAX"
  shows "variable_setattr S self exc (PyUnicode ''priority'') (PyLong n) =
     (if accepts S (ChgVarBranchPriority (variable self) n)
      then (Ret 0, exc, S\<lparr>calls := calls S @ [ChgVarBranchPriority (variable self) n],
                            branchpriority := (branchpriority S)(variable self := n)\<rparr>)
      else (Ret (- 1), PY_SCIP_ERROR (retcode_of S (calls S) (ChgVarBranchPriority (variable self) n)),
            S\<lparr>calls := calls S @ [ChgVarBranchPriority (variable self) n]\<rparr>))"
proof -
  have "LONG_MIN \<le> n \<and> n \<le> LONG_MAX"
    using assms by (simp add: INT_MIN_def INT_MAX_def LONG_MIN_def LONG_MAX_def)
  then show ?thesis
    using assms
    by (simp add: variable_setattr_def scip_exec_def Let_def long_to_int_id raise_opt_def accepts_def)
qed

lemma setattr_priority_other:
  "\<not> PyLong_Check val \<Longrightarrow>
     variable_setattr S self exc (PyUnicode ''priority'') val =
       (Ret (- 1), Some (ModuleError ''invalid value for variable branching priority''), S)"
  by (simp add: variable_setattr_def)

text \<open>
  Claim C9, as the code has it. Reading \<open>priority\<close> returns the branching priority the
  engine holds for the variable. Writing an int that fits a C int issues the change to the
  engine at once; when the engine accepts it the write succeeds, the error indicator is
  as before and the priority reads back as the value written. Writing anything that is
  not an int, a float included, raises the validation error and leaves the engine, and
  so the priority, unchanged.
\<close>

theorem priority_attribute:
  "variable_getattr S self (PyUnicode ''priority'') = Built (PyLong (branchpriority S (variable self)))
   \<and> (INT_MIN \<le> n \<and> n \<le> INT_MAX \<longrightarrow>
        calls (snd (snd (variable_setattr S self exc (PyUnicode ''priority'') (PyLong n)))) =
          calls S @ [ChgVarBranchPriority (variable self) n]
        \<and> (accepts S (ChgVarBranchPriority (variable self) n) \<longrightarrow>
             fst (variable_setattr S self exc (PyUnicode ''priority'') (PyLong n)) = Ret 0
             \<and> fst (snd (variable_setattr S self exc (PyUnicode ''priority'') (PyLong n))) = exc
             \<and> variable_getattr (snd (snd (variable_setattr S self exc (PyUnicode ''priority'') (PyLong n))))
                 self (PyUnicode ''priority'') = Built (PyLong n)))
   \<and> (\<not> PyLong_Check val \<longrightarrow>
        variable_setattr S self exc (PyUnicode ''priority'') val =
          (Ret (- 1), Some (ModuleError ''invalid value for variable branching priority''), S))"
  by (simp add: getattr_priority setattr_priority_int setattr_priority_other)

theorem priority_attribute_witness:
  "variable_setattr engine0 variable1 None (PyUnicode ''priority'') (PyLong 7) =
     (Ret 0, None, engine0\<lparr>calls := [ChgVarBranchPriority 0 7], branchpriority := (\<lambda>_. 0)(0 := 7)\<rparr>)
   \<and> variable_getattr (snd (snd (variable_setattr engine0 variable1 None (PyUnicode ''priority'') (PyLong 7))))
        variable1 (PyUnicode ''priority'') = Built (PyLong 7)
   \<and> variable_setattr engine0 variable1 None (PyUnicode ''priority'') (PyUnicode ''high'') =
          (Ret (- 1), Some (ModuleError ''invalid value for variable branching priority''), engine0)"
proof -
  have r: "INT_MIN \<le> 7 \<and> 7 \<le> INT_MAX" by (simp add: INT_MIN_def INT_MAX_def)
  have a: "accepts engine0 (ChgVarBranchPriority (variable variable1) 7)"
    by (simp add: accepts_def engine0_def)
  have e: "variable_setattr engine0 variable1 None (PyUnicode ''priority'') (PyLong 7) =
     (Ret 0, None, engine0\<lparr>calls := [ChgVarBranchPriority 0 7], branchpriority := (\<lambda>_. 0)(0 := 7)\<rparr>)"
    by (simp add: variable_setattr_def scip_exec_def Let_def long_to_int_def raise_opt_def
         LONG_MIN_def LONG_MAX_def engine0_def variable1_def SCIP_OKAY_def)
  show ?thesis
    using priority_attribute [of engine0 variable1 7 None "PyUnicode ''high''"] r a e
    by simp
qed

text \<open>
  Claim C9 as stated fails: the float 2.0 is a numeric value (\<open>PyFloat_Check\<close> holds, as
  the methods of the same file ask of a numeric argument), yet writing it to \<open>priority\<close>
  raises the validation error and nothing reaches the engine.
\<close>

theorem priority_float_counterexample:
  "PyFloat_Check (PyFloat (Fin 2)) \<and>
   variable_setattr engine0 variable1 None (PyUnicode ''priority'') (PyFloat (Fin 2)) =
     (Ret (- 1), Some (ModuleError ''invalid value for variable branching priority''), engine0)"
  by (simp add: variable_setattr_def)

section \<open>Removing a constraint\<close>

lemma unconstrain_other:
  "\<not> is_constraint c \<Longrightarrow>
     solver_unconstrain self exc c = (PyNULL, self, Some (ModuleError ''invalid constraint type''))"
  by (cases c) (simp_all add: solver_unconstrain_def)

lemma unconstrain_constraint:
  "solver_unconstrain self exc (PyConstraint cons) =
     (let S1 = after_restart (scip self);
          exc1 = (if accepts (scip self) FreeTransform then exc
                  else PY_SCIP_ERROR (retcode_of (scip self) (calls (scip self)) FreeTransform));
          S2 = snd (scip_exec (DelCons (constraint cons)) S1)
      in if accepts S1 (DelCons (constraint cons))
         then (PyNone, self\<lparr>scip := S2\<rparr>, exc1)
         else (PyNULL, self\<lparr>scip := S2\<rparr>, PY_SCIP_ERROR (retcode_of S1 (calls S1) (DelCons (constraint cons)))))"
  by (simp add: solver_unconstrain_def solver_restart_def after_restart_def accepts_def Let_def
        scip_exec_def split: prod.splits)

lemma unconstrain_calls:
  "calls (scip (fst (snd (solver_unconstrain self exc (PyConstraint cons))))) =
     calls (scip self) @ [FreeTransform, DelCons (constraint cons)]"
  by (simp add: unconstrain_constraint Let_def after_restart_def)

lemma unconstrain_stage:
  "accepts (scip self) FreeTransform \<Longrightarrow>
     stage (scip (fst (snd (solver_unconstrain self exc (PyConstraint cons))))) = SCIP_STAGE_PROBLEM"
  by (simp add: unconstrain_constraint Let_def after_restart_def accepts_def scip_exec_def)

text \<open>
  Claim C2, as the code has it. With a handle of the constraint type, the restart is
  issued to the engine before the delete, whatever the engine answers. When the engine
  performs the restart, the session is in the unsolved state after the call both when the
  delete succeeds (the call returns \<open>None\<close> and raises nothing) and when the engine refuses
  the delete (the call raises the engine's error). With a handle of any other type the
  call raises the error of the type check before any engine call and the session is left
  exactly as it was.
\<close>

theorem unconstrain_resets:
  "calls (scip (fst (snd (solver_unconstrain self exc (PyConstraint cons))))) =
     calls (scip self) @ [FreeTransform, DelCons (constraint cons)]
   \<and> (accepts (scip self) FreeTransform \<longrightarrow>
        stage (scip (fst (snd (solver_unconstrain self exc (PyConstraint cons))))) = SCIP_STAGE_PROBLEM
        \<and> (accepts (after_restart (scip self)) (DelCons (constraint cons)) \<longrightarrow>
             fst (solver_unconstrain self exc (PyConstraint cons)) = PyNone
             \<and> snd (snd (solver_unconstrain self exc (PyConstraint cons))) = exc)
        \<and> (\<not> accepts (after_restart (scip self)) (DelCons (constraint cons)) \<longrightarrow>
             fst (solver_unconstrain self exc (PyConstraint cons)) = PyNULL
             \<and> snd (snd (solver_unconstrain self exc (PyConstraint cons))) =
                 PY_SCIP_ERROR (retcode_of (scip self)
                    (calls (scip self) @ [FreeTransform]) (DelCons (constraint cons)))))
   \<and> (\<not> is_constraint c \<longrightarrow>
        solver_unconstrain self exc c = (PyNULL, self, Some (ModuleError ''invalid constraint type'')))"
  using unconstrain_calls [of self exc cons] unconstrain_stage [of self exc cons]
    unconstrain_other [of c self exc]
  by (simp add: unconstrain_constraint Let_def after_restart_def)

theorem unconstrain_resets_witness:
  "stage (scip solved_solver) = SCIP_STAGE_SOLVED
   \<and> stage (scip (fst (snd (solver_unconstrain solved_solver None (PyConstraint constraint1))))) = SCIP_STAGE_PROBLEM
   \<and> fst (solver_unconstrain solved_solver None (PyConstraint constraint1)) = PyNone
   \<and> snd (snd (solver_unconstrain solved_solver None (PyConstraint constraint1))) = None
   \<and> calls (scip (fst (snd (solver_unconstrain solved_solver None (PyConstraint constraint1))))) =
        [FreeTransform, DelCons 7]
   \<and> solver_unconstrain solved_solver None (PyUnicode ''c1'') =
        (PyNULL, solved_solver, Some (ModuleError ''invalid constraint type''))
   \<and> stage (scip solver_no_delete) = SCIP_STAGE_SOLVED
   \<and> stage (scip (fst (snd (solver_unconstrain solver_no_delete None (PyConstraint constraint1))))) = SCIP_STAGE_PROBLEM
   \<and> fst (solver_unconstrain solver_no_delete None (PyConstraint constraint1)) = PyNULL
   \<and> snd (snd (solver_unconstrain solver_no_delete None (PyConstraint constraint1))) = Some (ScipError 0)"
proof -
  have b1: "accepts (scip solver_no_delete) FreeTransform"
    and b2: "\<not> accepts (after_restart (scip solver_no_delete)) (DelCons (constraint constraint1))"
    by (simp_all add: accepts_def after_restart_def solver_no_delete_def engine0_def SCIP_OKAY_def)
  have d: "stage (scip solver_no_delete) = SCIP_STAGE_SOLVED"
    "retcode_of (scip solver_no_delete) (calls (scip solver_no_delete) @ [FreeTransform])
       (DelCons (constraint constraint1)) = 0"
    by (simp_all add: solver_no_delete_def engine0_def)
  have a1: "accepts (scip solved_solver) FreeTransform"
    and a2: "accepts (after_restart (scip solved_solver)) (DelCons (constraint constraint1))"
    by (simp_all add: accepts_def after_restart_def solved_solver_def engine0_def)
  have c: "calls (scip solved_solver) = []" "constraint constraint1 = 7"
    "stage (scip solved_solver) = SCIP_STAGE_SOLVED"
    by (simp_all add: solved_solver_def engine0_def constraint1_def)
  show ?thesis
    using unconstrain_resets [where self = solved_solver and exc = None and cons = constraint1
        and c = "PyUnicode ''c1''"]
      unconstrain_resets [where self = solver_no_delete and exc = None and cons = constraint1
        and c = "PyUnicode ''c1''"] a1 a2 b1 b2 c d
    by (simp add: PY_SCIP_ERROR_def)
qed

text \<open>
  Claim C2 as stated fails on a type mismatch: a SOLVED session asked to remove an int
  raises the error and stays SOLVED, since the type check returns before the restart.
\<close>

theorem unconstrain_type_mismatch_counterexample:
  "stage (scip solved_solver) = SCIP_STAGE_SOLVED
   \<and> solver_unconstrain solved_solver None (PyLong 3) =
       (PyNULL, solved_solver, Some (ModuleError ''invalid constraint type''))
   \<and> stage (scip (fst (snd (solver_unconstrain solved_solver None (PyLong 3))))) \<noteq> SCIP_STAGE_PROBLEM"
  by (simp add: solver_unconstrain_def solved_solver_def)

text \<open>
  Claim C10. The session that owns a constraint plays no part in its removal: the call
  with a constraint handle does the same whatever session the handle belongs to, it
  issues the restart and then the delete of that constraint on the engine of the session
  it is called on, and the only error it can raise is an engine error (it never raises
  the error of the type check).
\<close>

theorem unconstrain_no_owner_check:
  "solver_unconstrain self exc (PyConstraint (cons\<lparr>cons_scip := q\<rparr>)) =
     solver_unconstrain self exc (PyConstraint cons)
   \<and> calls (scip (fst (snd (solver_unconstrain self exc (PyConstraint cons))))) =
       calls (scip self) @ [FreeTransform, DelCons (constraint cons)]
   \<and> (snd (snd (solver_unconstrain self exc (PyConstraint cons))) = exc
      \<or> (\<exists>rc. snd (snd (solver_unconstrain self exc (PyConstraint cons))) = Some (ScipError rc)))"
  by (simp add: unconstrain_constraint Let_def after_restart_def PY_SCIP_ERROR_def)

text \<open>A constraint of the session at address 2, removed through the session at address 1.\<close>

theorem unconstrain_no_owner_check_witness:
  "cons_scip foreign_constraint \<noteq> addr (scip solved_solver)
   \<and> solver_unconstrain solved_solver None (PyConstraint foreign_constraint) =
       solver_unconstrain solved_solver None (PyConstraint (foreign_constraint\<lparr>cons_scip := 1\<rparr>))
   \<and> fst (solver_unconstrain solved_solver None (PyConstraint foreign_constraint)) = PyNone
   \<and> snd (snd (solver_unconstrain solved_solver None (PyConstraint foreign_constraint))) = None
   \<and> calls (scip (fst (snd (solver_unconstrain solved_solver None (PyConstraint foreign_constraint))))) =
       [FreeTransform, DelCons 9]"
proof -
  have c: "calls (scip solved_solver) = []" "constraint foreign_constraint = 9"
    "cons_scip foreign_constraint = 2" "addr (scip solved_solver) = 1"
    by (simp_all add: solved_solver_def engine0_def foreign_constraint_def)
  have r: "fst (solver_unconstrain solved_solver None (PyConstraint foreign_constraint)) = PyNone
     \<and> snd (snd (solver_unconstrain solved_solver None (PyConstraint foreign_constraint))) = None"
    by (simp add: unconstrain_constraint Let_def after_restart_def accepts_def solved_solver_def
          engine0_def scip_exec_def)
  show ?thesis
    using unconstrain_no_owner_check [where self = solved_solver and exc = None
        and cons = foreign_constraint and q = 1] c r
    by simp
qed

section \<open>Seeding a primal solution\<close>

lemma seed_check_None_iff: "seed_check p items = None \<longleftrightarrow> list_all (entry_valid p) items"
  by (induction p items rule: seed_check.induct) auto

lemma seed_check_Some:
  "seed_check p items = Some e \<Longrightarrow>
     e = ModuleError ''invalid variable type'' \<or>
     e = ModuleError ''variable not associated with solver'' \<or>
     e = ModuleError ''solution values must be numeric''"
  by (induction p items rule: seed_check.induct) (auto split: if_splits)

lemma seed_primal_invalid:
  assumes "\<not> list_all (entry_valid (addr (scip self))) items"
  shows "\<exists>e. seed_check (addr (scip self)) items = Some e \<and>
           seed_primal self exc (Some items) = (self, Some e)"
proof -
  from assms obtain e where e: "seed_check (addr (scip self)) items = Some e"
    by (cases "seed_check (addr (scip self)) items") (auto simp: seed_check_None_iff)
  from assms have "items \<noteq> []" by auto
  with e show ?thesis by (simp add: seed_primal_def)
qed

lemma seed_primal_empty: "seed_primal self exc None = (self, exc)" "seed_primal self exc (Some []) = (self, exc)"
  by (simp_all add: seed_primal_def)

text \<open>
  Claim C3. A seed with an entry that is not valid (the key is not a variable, or is a
  variable of another session, or the value is not a float or an int) is rejected as a
  whole: the call raises one of the three validation errors and the session, its engine and
  the engine's record of calls are exactly as before (no transform, no candidate, no
  assignment).
\<close>

theorem seed_rejected_atomically:
  assumes "\<not> list_all (entry_valid (addr (scip self))) items"
  shows "fst (seed_primal self exc (Some items)) = self
     \<and> (snd (seed_primal self exc (Some items)) = Some (ModuleError ''invalid variable type'')
        \<or> snd (seed_primal self exc (Some items)) = Some (ModuleError ''variable not associated with solver'')
        \<or> snd (seed_primal self exc (Some items)) = Some (ModuleError ''solution values must be numeric''))"
  using seed_primal_invalid [OF assms, of exc] seed_check_Some [of "addr (scip self)" items]
  by auto

theorem seed_rejected_atomically_witness:
  "seed_primal solver0 None (Some bad_seed) = (solver0, Some (ModuleError ''invalid variable type''))"
proof -
  have h: "\<not> list_all (entry_valid (addr (scip solver0))) bad_seed"
    by (simp add: bad_seed_def)
  have e: "snd (seed_primal solver0 None (Some bad_seed)) = Some (ModuleError ''invalid variable type'')"
    by (simp add: seed_primal_def bad_seed_def)
  show ?thesis
    using seed_rejected_atomically [OF h, of None] e
    by (simp add: prod_eq_iff)
qed

text \<open>
  Every call that seeding issues is one of the calls of seeding, and seeding leaves the
  limits, the objective sense and the engine's behaviour alone.
\<close>

lemma seed_step_refl [simp]: "seed_step S S"
  by (simp add: seed_step_def new_calls_def)

lemma new_calls_append: "calls S' = calls S @ xs \<Longrightarrow> new_calls S S' = xs"
  by (simp add: new_calls_def)

lemma seed_step_exec: "is_seed_call c \<Longrightarrow> seed_step S (snd (scip_exec c S))"
  by (cases c) (simp_all add: seed_step_def new_calls_def scip_exec_def Let_def same_limits_def)

lemma seed_step_trans:
  assumes "seed_step S S'" "seed_step S' S''"
  shows "seed_step S S''"
proof -
  have c: "calls S'' = calls S @ (new_calls S S' @ new_calls S' S'')"
    using assms by (simp add: seed_step_def)
  then have "new_calls S S'' = new_calls S S' @ new_calls S' S''"
    by (rule new_calls_append)
  with c assms show ?thesis
    by (auto simp: seed_step_def intro: same_limits_trans)
qed

lemma seed_assign_step: "seed_step S (fst (seed_assign items S exc))"
proof (induction items S exc rule: seed_assign.induct)
  case (1 S exc)
  show ?case by simp
next
  case (2 key val rest S exc)
  obtain d e where v: "seed_value val = (d, e)" by (cases "seed_value val")
  let ?S1 = "if dnonzero d then snd (scip_exec (SetSolVal (key_variable key) d) S) else S"
  have "seed_step S ?S1" by (simp add: seed_step_exec)
  moreover have "seed_step ?S1 (fst (seed_assign rest ?S1 (raise_opt e exc)))"
    using 2 [OF v [symmetric]] by simp
  ultimately have "seed_step S (fst (seed_assign rest ?S1 (raise_opt e exc)))"
    by (rule seed_step_trans)
  then show ?case using v by simp
qed

lemma seed_primal_step: "seed_step (scip self) (scip (fst (seed_primal self exc solution)))"
proof (cases solution)
  case None
  then show ?thesis by (simp add: seed_primal_def)
next
  case (Some items)
  show ?thesis
  proof (cases "items \<noteq> [] \<and> seed_check (addr (scip self)) items = None")
    case False
    then show ?thesis using Some by (auto simp: seed_primal_def)
  next
    case True
    let ?S1 = "snd (scip_exec TransformProb (scip self))"
    let ?S2 = "snd (scip_exec CreateSol ?S1)"
    let ?S3 = "fst (seed_assign items ?S2 exc)"
    let ?S4 = "snd (scip_exec CheckSolOrig ?S3)"
    let ?S5 = "snd (scip_exec TrySolFree ?S4)"
    have "seed_step (scip self) ?S1" by (simp add: seed_step_exec)
    moreover have "seed_step ?S1 ?S2" by (simp add: seed_step_exec)
    ultimately have "seed_step (scip self) ?S2" by (rule seed_step_trans)
    moreover have "seed_step ?S2 ?S3" by (rule seed_assign_step)
    ultimately have "seed_step (scip self) ?S3" by (rule seed_step_trans)
    moreover have "seed_step ?S3 ?S4" by (simp add: seed_step_exec)
    ultimately have s4: "seed_step (scip self) ?S4" by (rule seed_step_trans)
    moreover have "seed_step ?S4 ?S5" by (simp add: seed_step_exec)
    ultimately have s5: "seed_step (scip self) ?S5" by (rule seed_step_trans)
    have "scip (fst (seed_primal self exc solution)) = ?S4 \<or> scip (fst (seed_primal self exc solution)) = ?S5"
      using Some True
      by (simp add: seed_primal_def Let_def SCIPcheckSolOrig_def split: prod.splits)
    with s4 s5 show ?thesis by auto
  qed
qed

lemma seed_step_no_solve:
  "seed_step S S' \<Longrightarrow> Solve \<notin> set (new_calls S S') \<and> ClockReset \<notin> set (new_calls S S')"
  by (auto simp: seed_step_def list_all_iff)

text \<open>
  Claim C4. A seed that is not empty and passes validation, whose candidate the engine
  checks and finds infeasible, makes the call report the error of an infeasible primal
  solution, and the candidate is offered to the engine all the same: the call that hands
  it over (\<open>SCIPtrySolFree\<close>) follows the check.
\<close>

theorem infeasible_seed_still_offered:
  assumes ne: "items \<noteq> []"
    and valid: "list_all (entry_valid (addr (scip self))) items"
    and cand: "seed_candidate self exc items = (S3, exc3)"
    and chk: "accepts S3 CheckSolOrig"
    and infeas: "\<not> feasible_of S3 (calls S3)"
  shows "snd (seed_primal self exc (Some items)) = Some (ModuleError ''infeasible primal solution'')
     \<and> fst (seed_primal self exc (Some items)) =
         self\<lparr>scip := snd (scip_exec TrySolFree (snd (scip_exec CheckSolOrig S3)))\<rparr>
     \<and> calls (scip (fst (seed_primal self exc (Some items)))) = calls S3 @ [CheckSolOrig, TrySolFree]"
proof -
  have v: "seed_check (addr (scip self)) items = None"
    using valid by (simp add: seed_check_None_iff)
  have c: "SCIPcheckSolOrig S3 = (SCIP_OKAY, False, snd (scip_exec CheckSolOrig S3))"
    using chk infeas by (simp add: SCIPcheckSolOrig_def scip_exec_def Let_def accepts_def)
  have "seed_primal self exc (Some items) =
      (self\<lparr>scip := snd (scip_exec TrySolFree (snd (scip_exec CheckSolOrig S3)))\<rparr>,
       Some (ModuleError ''infeasible primal solution''))"
    using ne v cand c by (simp add: seed_primal_def seed_candidate_def Let_def)
  then show ?thesis by simp
qed

theorem infeasible_seed_still_offered_witness:
  "seed_primal solver_infeasible None (Some seed1) =
     (solver_infeasible\<lparr>scip := engine_infeasible\<lparr>stage := SCIP_STAGE_TRANSFORMED,
         calls := [TransformProb, CreateSol, SetSolVal 0 (Fin 3), CheckSolOrig, TrySolFree]\<rparr>\<rparr>,
      Some (ModuleError ''infeasible primal solution''))"
proof -
  let ?S3 = "engine_infeasible\<lparr>stage := SCIP_STAGE_TRANSFORMED,
         calls := [TransformProb, CreateSol, SetSolVal 0 (Fin 3)]\<rparr>"
  have ne: "seed1 \<noteq> []" by (simp add: seed1_def)
  have valid: "list_all (entry_valid (addr (scip solver_infeasible))) seed1"
    by (simp add: seed1_def variable1_def solver_infeasible_def engine_infeasible_def engine0_def)
  have cand: "seed_candidate solver_infeasible None seed1 = (?S3, None)"
    by (simp add: seed_candidate_def seed1_def variable1_def solver_infeasible_def
          engine_infeasible_def engine0_def scip_exec_def Let_def seed_value_def dnonzero_def
          raise_opt_def SCIP_OKAY_def)
  have chk: "accepts ?S3 CheckSolOrig"
    by (simp add: accepts_def engine_infeasible_def engine0_def)
  have infeas: "\<not> feasible_of ?S3 (calls ?S3)"
    by (simp add: engine_infeasible_def engine0_def)
  have e: "snd (scip_exec TrySolFree (snd (scip_exec CheckSolOrig ?S3))) =
      engine_infeasible\<lparr>stage := SCIP_STAGE_TRANSFORMED,
         calls := [TransformProb, CreateSol, SetSolVal 0 (Fin 3), CheckSolOrig, TrySolFree]\<rparr>"
    by (simp add: scip_exec_def Let_def engine_infeasible_def engine0_def)
  show ?thesis
    using infeasible_seed_still_offered [OF ne valid cand chk infeas]
    by (simp add: e prod_eq_iff)
qed


section \<open>Optimizing\<close>

lemma parse_Odddid_solution:
  "parse_Odddid a t g ag n off = Inr (solution, t', g', ag', n', off') \<Longrightarrow>
     parse_dict (arg_solution a) = Inr solution"
  by (auto simp: parse_Odddid_def split: sum.splits)

lemma parse_Odddid_not_dict:
  "parse_dict (arg_solution a) = Inl e \<Longrightarrow> parse_Odddid a t g ag n off = Inl e"
  by (simp add: parse_Odddid_def)

lemma optimize_parse_error:
  "parse_Odddid a (SCIP_DEFAULT_LIMIT_TIME dflt) (SCIP_DEFAULT_LIMIT_GAP dflt)
      (SCIP_DEFAULT_LIMIT_GAP dflt) (SCIP_DEFAULT_LIMIT_SOLUTIONS dflt) (Fin 0) = Inl e \<Longrightarrow>
   optimize dflt self exc a = (self, Some e)"
  by (simp add: optimize_def)

lemma optimize_seed_error:
  assumes "parse_Odddid a (SCIP_DEFAULT_LIMIT_TIME dflt) (SCIP_DEFAULT_LIMIT_GAP dflt)
      (SCIP_DEFAULT_LIMIT_GAP dflt) (SCIP_DEFAULT_LIMIT_SOLUTIONS dflt) (Fin 0) =
        Inr (solution, t', g', ag', n', off')"
    and "snd (seed_primal self exc solution) \<noteq> None"
  shows "optimize dflt self exc a = seed_primal self exc solution"
  using assms by (cases "seed_primal self exc solution") (simp add: optimize_def)

lemma optimize_aborted:
  assumes sol: "arg_solution a = Some (PyDict items)"
    and err: "snd (seed_primal self exc (Some items)) \<noteq> None"
  shows "snd (optimize dflt self exc a) \<noteq> None
     \<and> seed_step (scip self) (scip (fst (optimize dflt self exc a)))"
proof (cases "parse_Odddid a (SCIP_DEFAULT_LIMIT_TIME dflt) (SCIP_DEFAULT_LIMIT_GAP dflt)
      (SCIP_DEFAULT_LIMIT_GAP dflt) (SCIP_DEFAULT_LIMIT_SOLUTIONS dflt) (Fin 0)")
  case (Inl e)
  then show ?thesis by (simp add: optimize_parse_error)
next
  case (Inr r)
  obtain solution t' g' ag' n' off' where r: "r = (solution, t', g', ag', n', off')"
    by (cases r) auto
  from Inr r sol have s: "solution = Some items"
    using parse_Odddid_solution [of a _ _ _ _ _ solution] by auto
  from Inr r s err have "optimize dflt self exc a = seed_primal self exc (Some items)"
    using optimize_seed_error by blast
  with err show ?thesis by (simp add: seed_primal_step)
qed

lemma optimize_malformed:
  assumes "malformed_seed (addr (scip self)) (arg_solution a)"
  shows "fst (optimize dflt self exc a) = self \<and> snd (optimize dflt self exc a) \<noteq> None"
proof (cases "parse_Odddid a (SCIP_DEFAULT_LIMIT_TIME dflt) (SCIP_DEFAULT_LIMIT_GAP dflt)
      (SCIP_DEFAULT_LIMIT_GAP dflt) (SCIP_DEFAULT_LIMIT_SOLUTIONS dflt) (Fin 0)")
  case (Inl e)
  then show ?thesis by (simp add: optimize_parse_error)
next
  case (Inr r)
  obtain solution t' g' ag' n' off' where r: "r = (solution, t', g', ag', n', off')"
    by (cases r) auto
  from Inr r have pd: "parse_dict (arg_solution a) = Inr solution"
    using parse_Odddid_solution by blast
  from assms pd obtain items where s: "solution = Some items"
    and bad: "\<not> list_all (entry_valid (addr (scip self))) items"
    by (cases "(addr (scip self), arg_solution a)" rule: malformed_seed.cases) auto
  from seed_primal_invalid [OF bad, of exc] obtain e where
    e: "seed_primal self exc (Some items) = (self, Some e)" by blast
  then have "optimize dflt self exc a = (self, Some e)"
    using optimize_seed_error [of a dflt solution t' g' ag' n' off' self exc] Inr r s by simp
  then show ?thesis by simp
qed

lemma maximize_malformed:
  assumes "malformed_seed (addr (scip self)) (arg_solution a)"
  shows "fst (solver_maximize dflt self exc a) = PyNULL
     \<and> fst (snd (solver_maximize dflt self exc a)) =
         self\<lparr>scip := snd (scip_exec (SetObjsense SCIP_OBJSENSE_MAXIMIZE) (scip self))\<rparr>
     \<and> snd (snd (solver_maximize dflt self exc a)) \<noteq> None"
proof -
  let ?S1 = "snd (scip_exec (SetObjsense SCIP_OBJSENSE_MAXIMIZE) (scip self))"
  have "malformed_seed (addr (scip (self\<lparr>scip := ?S1\<rparr>))) (arg_solution a)"
    using assms by simp
  from optimize_malformed [OF this, of dflt exc] show ?thesis
    by (cases "scip_exec (SetObjsense SCIP_OBJSENSE_MAXIMIZE) (scip self)")
       (auto simp: solver_maximize_def PY_SCIP_ERROR_def split: prod.splits)
qed

lemma minimize_malformed:
  assumes "malformed_seed (addr (scip self)) (arg_solution a)"
  shows "fst (solver_minimize dflt self exc a) = PyNULL
     \<and> fst (snd (solver_minimize dflt self exc a)) =
         self\<lparr>scip := snd (scip_exec (SetObjsense SCIP_OBJSENSE_MINIMIZE) (scip self))\<rparr>
     \<and> snd (snd (solver_minimize dflt self exc a)) \<noteq> None"
proof -
  let ?S1 = "snd (scip_exec (SetObjsense SCIP_OBJSENSE_MINIMIZE) (scip self))"
  have "malformed_seed (addr (scip (self\<lparr>scip := ?S1\<rparr>))) (arg_solution a)"
    using assms by simp
  from optimize_malformed [OF this, of dflt exc] show ?thesis
    by (cases "scip_exec (SetObjsense SCIP_OBJSENSE_MINIMIZE) (scip self)")
       (auto simp: solver_minimize_def PY_SCIP_ERROR_def split: prod.splits)
qed

lemma setobjsense_accepted:
  "accepts S (SetObjsense s) \<Longrightarrow>
     snd (scip_exec (SetObjsense s) S) = S\<lparr>calls := calls S @ [SetObjsense s], sense := s\<rparr>"
  by (simp add: scip_exec_def accepts_def Let_def)

text \<open>
  Claim C5. When a seed mapping is supplied and seeding leaves an error pending (one of
  the validation errors of the seed, among others), \<open>_optimize\<close> returns with an error
  pending and without going further: every engine call it has issued is a call of seeding,
  so neither the clock reset nor the solve is among them, and the five limits are as
  before. For a seed with an entry that is not valid, \<open>maximize\<close> and \<open>minimize\<close> return
  \<open>NULL\<close> having issued the setting of the objective sense and nothing else.
\<close>

theorem seed_failure_aborts_optimize:
  assumes sol: "arg_solution a = Some (PyDict items)"
    and err: "snd (seed_primal self exc (Some items)) \<noteq> None"
  shows "snd (optimize dflt self exc a) \<noteq> None
     \<and> calls (scip (fst (optimize dflt self exc a))) =
         calls (scip self) @ new_calls (scip self) (scip (fst (optimize dflt self exc a)))
     \<and> Solve \<notin> set (new_calls (scip self) (scip (fst (optimize dflt self exc a))))
     \<and> ClockReset \<notin> set (new_calls (scip self) (scip (fst (optimize dflt self exc a))))
     \<and> same_limits (scip self) (scip (fst (optimize dflt self exc a)))
     \<and> (\<not> list_all (entry_valid (addr (scip self))) items \<longrightarrow>
          fst (solver_maximize dflt self exc a) = PyNULL
          \<and> calls (scip (fst (snd (solver_maximize dflt self exc a)))) =
              calls (scip self) @ [SetObjsense SCIP_OBJSENSE_MAXIMIZE]
          \<and> same_limits (scip self) (scip (fst (snd (solver_maximize dflt self exc a))))
          \<and> fst (solver_minimize dflt self exc a) = PyNULL
          \<and> calls (scip (fst (snd (solver_minimize dflt self exc a)))) =
              calls (scip self) @ [SetObjsense SCIP_OBJSENSE_MINIMIZE]
          \<and> same_limits (scip self) (scip (fst (snd (solver_minimize dflt self exc a)))))"
proof -
  have m: "\<not> list_all (entry_valid (addr (scip self))) items \<Longrightarrow>
      malformed_seed (addr (scip self)) (arg_solution a)"
    using sol by simp
  show ?thesis
    using optimize_aborted [OF sol err, of dflt]
      seed_step_no_solve [of "scip self" "scip (fst (optimize dflt self exc a))"]
      maximize_malformed [OF m, of dflt exc] minimize_malformed [OF m, of dflt exc]
    by (simp add: seed_step_def)
qed

theorem seed_failure_aborts_optimize_witness:
  "optimize dflt0 solver0 None (seed_args (Some (PyDict bad_seed))) =
     (solver0, Some (ModuleError ''invalid variable type''))
   \<and> Solve \<notin> set (new_calls (scip solver0)
        (scip (fst (optimize dflt0 solver0 None (seed_args (Some (PyDict bad_seed)))))))
   \<and> same_limits (scip solver0)
        (scip (fst (optimize dflt0 solver0 None (seed_args (Some (PyDict bad_seed))))))
   \<and> fst (solver_maximize dflt0 solver0 None (seed_args (Some (PyDict bad_seed)))) = PyNULL
   \<and> calls (scip (fst (snd (solver_maximize dflt0 solver0 None (seed_args (Some (PyDict bad_seed))))))) =
       [SetObjsense SCIP_OBJSENSE_MAXIMIZE]
   \<and> fst (solver_minimize dflt0 solver0 None (seed_args (Some (PyDict bad_seed)))) = PyNULL
   \<and> calls (scip (fst (snd (solver_minimize dflt0 solver0 None (seed_args (Some (PyDict bad_seed))))))) =
       [SetObjsense SCIP_OBJSENSE_MINIMIZE]"
proof -
  have bad: "\<not> list_all (entry_valid (addr (scip solver0))) bad_seed"
    by (simp add: bad_seed_def)
  have c: "calls (scip solver0) = []"
    by (simp add: solver0_def engine0_def)
  have sol: "arg_solution (seed_args (Some (PyDict bad_seed))) = Some (PyDict bad_seed)"
    by (simp add: seed_args_def)
  have err: "snd (seed_primal solver0 None (Some bad_seed)) \<noteq> None"
    by (simp add: seed_primal_def bad_seed_def)
  have e: "optimize dflt0 solver0 None (seed_args (Some (PyDict bad_seed))) =
     (solver0, Some (ModuleError ''invalid variable type''))"
    by (simp add: optimize_def parse_Odddid_def seed_args_def seed_primal_def bad_seed_def)
  show ?thesis
    using seed_failure_aborts_optimize [OF sol err, of dflt0] e bad c
    by simp
qed

lemma parse_Odddid_empty:
  "parse_Odddid (a\<lparr>arg_solution := Some (PyDict [])\<rparr>) t g ag n off =
     (case parse_Odddid (a\<lparr>arg_solution := None\<rparr>) t g ag n off of
        Inl e \<Rightarrow> Inl e
      | Inr (solution, r) \<Rightarrow> Inr (Some [], r))"
  by (simp add: parse_Odddid_def split: sum.splits)

lemma parse_Odddid_none:
  "parse_Odddid (a\<lparr>arg_solution := None\<rparr>) t g ag n off = Inr (solution, r) \<Longrightarrow> solution = None"
  by (auto simp: parse_Odddid_def split: sum.splits)

lemma optimize_empty_seed:
  "optimize dflt self exc (a\<lparr>arg_solution := Some (PyDict [])\<rparr>) =
     optimize dflt self exc (a\<lparr>arg_solution := None\<rparr>)"
proof (cases "parse_Odddid (a\<lparr>arg_solution := None\<rparr>) (SCIP_DEFAULT_LIMIT_TIME dflt)
      (SCIP_DEFAULT_LIMIT_GAP dflt) (SCIP_DEFAULT_LIMIT_GAP dflt)
      (SCIP_DEFAULT_LIMIT_SOLUTIONS dflt) (Fin 0)")
  case (Inl e)
  then show ?thesis by (simp add: optimize_def parse_Odddid_empty)
next
  case (Inr r)
  obtain solution r' where r: "r = (solution, r')" by (cases r) auto
  with Inr have "solution = None" using parse_Odddid_none by blast
  with Inr r show ?thesis
    by (simp add: optimize_def parse_Odddid_empty seed_primal_empty split: prod.splits)
qed

text \<open>
  Claim C8. Seeding with no mapping and seeding with an empty mapping both return at once
  with the session and the error indicator as they were, and \<open>_optimize\<close>, \<open>maximize\<close> and
  \<open>minimize\<close> do with an empty mapping exactly what they do with none.
\<close>

theorem empty_seed_noop:
  "seed_primal self exc None = (self, exc)
   \<and> seed_primal self exc (Some []) = (self, exc)
   \<and> optimize dflt self exc (a\<lparr>arg_solution := Some (PyDict [])\<rparr>) =
       optimize dflt self exc (a\<lparr>arg_solution := None\<rparr>)
   \<and> solver_maximize dflt self exc (a\<lparr>arg_solution := Some (PyDict [])\<rparr>) =
       solver_maximize dflt self exc (a\<lparr>arg_solution := None\<rparr>)
   \<and> solver_minimize dflt self exc (a\<lparr>arg_solution := Some (PyDict [])\<rparr>) =
       solver_minimize dflt self exc (a\<lparr>arg_solution := None\<rparr>)"
  by (simp add: seed_primal_empty optimize_empty_seed solver_maximize_def solver_minimize_def
        split: prod.splits)

theorem empty_seed_noop_witness:
  "solver_maximize dflt0 solver0 None (seed_args (Some (PyDict []))) =
     solver_maximize dflt0 solver0 None (seed_args None)
   \<and> calls (scip (fst (snd (solver_maximize dflt0 solver0 None (seed_args (Some (PyDict []))))))) =
       [SetObjsense SCIP_OBJSENSE_MAXIMIZE, ClockReset, Solve]"
proof -
  have a: "seed_args (Some (PyDict [])) = (seed_args None)\<lparr>arg_solution := Some (PyDict [])\<rparr>"
    "seed_args None = (seed_args None)\<lparr>arg_solution := None\<rparr>"
    by (simp_all add: seed_args_def)
  have c: "calls (scip (fst (snd (solver_maximize dflt0 solver0 None (seed_args None))))) =
       [SetObjsense SCIP_OBJSENSE_MAXIMIZE, ClockReset, Solve]"
    by (simp add: solver_maximize_def optimize_def parse_Odddid_def seed_args_def seed_primal_def
          scip_exec_def Let_def solver0_def engine0_def dflt0_def SCIP_OKAY_def)
  show ?thesis
    using empty_seed_noop [of solver0 None dflt0 "seed_args None"] a c
    by simp
qed


section \<open>Validation errors\<close>

lemma variable_init_not_solver:
  assumes "arg_solver a = Some s" "\<not> is_solver s"
  shows "fst (variable_init v exc a c0) = - 1
       \<and> fst (snd (variable_init v exc a c0)) = v
       \<and> fst (snd (snd (variable_init v exc a c0))) \<noteq> None
       \<and> snd (snd (snd (variable_init v exc a c0))) = Some s"
proof (cases "parse_O_idddi a 0 c0 (Fin 0) (Fin 0) 0")
  case (Inl e)
  with assms show ?thesis by (simp add: variable_init_def)
next
  case (Inr r)
  obtain s' t1 c1 l1 r1 p1 where r: "r = (s', t1, c1, l1, r1, p1)" by (cases r) auto
  with Inr assms have "s' = s" by (simp add: parse_O_idddi_Inr)
  with Inr r assms show ?thesis by (cases s) (simp_all add: variable_init_def)
qed

lemma not_numeric_rejected:
  assumes "\<not> (PyFloat_Check arg \<or> PyLong_Check arg)"
  shows "variable_set_coefficient S v exc arg =
           (PyNULL, v, Some (ModuleError ''invalid objective coefficient''), S)"
    and "variable_tighten_lower S v exc arg = (PyNULL, v, Some (ModuleError ''invalid lower bound''), S)"
    and "variable_tighten_upper S v exc arg = (PyNULL, v, Some (ModuleError ''invalid upper bound''), S)"
  using assms
  by (simp_all add: variable_set_coefficient_def variable_tighten_lower_def variable_tighten_upper_def)

text \<open>
  Claim C7, as the code has it. Each function raises its validation error before any
  engine call of its own and leaves what it was given unchanged: a declaration against
  something that is not a solver, a coefficient or a bound that is not a number, a
  priority that is not an int, the removal of something that is not a constraint, a seed
  with an entry that is not valid, and \<open>_optimize\<close> with a malformed seed. \<open>maximize\<close> and
  \<open>minimize\<close> set the objective sense on the engine before the seed is looked at: a call
  rejected for a malformed seed has issued that one call, and when the engine accepted it
  the session has the sense asked for, with nothing else changed.
\<close>

theorem validation_errors_change_nothing_but_sense:
  "(arg_solver ia = Some s \<and> \<not> is_solver s \<longrightarrow>
       fst (variable_init v exc ia c0) = - 1
       \<and> fst (snd (variable_init v exc ia c0)) = v
       \<and> fst (snd (snd (variable_init v exc ia c0))) \<noteq> None
       \<and> snd (snd (snd (variable_init v exc ia c0))) = Some s)
   \<and> (\<not> (PyFloat_Check arg \<or> PyLong_Check arg) \<longrightarrow>
       variable_set_coefficient S v exc arg =
         (PyNULL, v, Some (ModuleError ''invalid objective coefficient''), S)
       \<and> variable_tighten_lower S v exc arg = (PyNULL, v, Some (ModuleError ''invalid lower bound''), S)
       \<and> variable_tighten_upper S v exc arg = (PyNULL, v, Some (ModuleError ''invalid upper bound''), S))
   \<and> (\<not> PyLong_Check val \<longrightarrow>
       variable_setattr S v exc (PyUnicode ''priority'') val =
         (Ret (- 1), Some (ModuleError ''invalid value for variable branching priority''), S))
   \<and> (\<not> is_constraint c \<longrightarrow>
       solver_unconstrain self exc c = (PyNULL, self, Some (ModuleError ''invalid constraint type'')))
   \<and> (\<not> list_all (entry_valid (addr (scip self))) items \<longrightarrow>
       fst (seed_primal self exc (Some items)) = self
       \<and> snd (seed_primal self exc (Some items)) \<noteq> None)
   \<and> (malformed_seed (addr (scip self)) (arg_solution a) \<longrightarrow>
       fst (optimize dflt self exc a) = self \<and> snd (optimize dflt self exc a) \<noteq> None
       \<and> fst (solver_maximize dflt self exc a) = PyNULL
       \<and> snd (snd (solver_maximize dflt self exc a)) \<noteq> None
       \<and> fst (snd (solver_maximize dflt self exc a)) =
           self\<lparr>scip := snd (scip_exec (SetObjsense SCIP_OBJSENSE_MAXIMIZE) (scip self))\<rparr>
       \<and> fst (solver_minimize dflt self exc a) = PyNULL
       \<and> snd (snd (solver_minimize dflt self exc a)) \<noteq> None
       \<and> fst (snd (solver_minimize dflt self exc a)) =
           self\<lparr>scip := snd (scip_exec (SetObjsense SCIP_OBJSENSE_MINIMIZE) (scip self))\<rparr>
       \<and> (accepts (scip self) (SetObjsense SCIP_OBJSENSE_MAXIMIZE) \<longrightarrow>
            scip (fst (snd (solver_maximize dflt self exc a))) =
              (scip self)\<lparr>calls := calls (scip self) @ [SetObjsense SCIP_OBJSENSE_MAXIMIZE],
                           sense := SCIP_OBJSENSE_MAXIMIZE\<rparr>)
       \<and> (accepts (scip self) (SetObjsense SCIP_OBJSENSE_MINIMIZE) \<longrightarrow>
            scip (fst (snd (solver_minimize dflt self exc a))) =
              (scip self)\<lparr>calls := calls (scip self) @ [SetObjsense SCIP_OBJSENSE_MINIMIZE],
                           sense := SCIP_OBJSENSE_MINIMIZE\<rparr>))"
proof -
  have 1: "arg_solver ia = Some s \<and> \<not> is_solver s \<longrightarrow>
       fst (variable_init v exc ia c0) = - 1
       \<and> fst (snd (variable_init v exc ia c0)) = v
       \<and> fst (snd (snd (variable_init v exc ia c0))) \<noteq> None
       \<and> snd (snd (snd (variable_init v exc ia c0))) = Some s"
    using variable_init_not_solver [of ia s v exc c0] by blast
  have 2: "\<not> (PyFloat_Check arg \<or> PyLong_Check arg) \<longrightarrow>
       variable_set_coefficient S v exc arg =
         (PyNULL, v, Some (ModuleError ''invalid objective coefficient''), S)
       \<and> variable_tighten_lower S v exc arg = (PyNULL, v, Some (ModuleError ''invalid lower bound''), S)
       \<and> variable_tighten_upper S v exc arg = (PyNULL, v, Some (ModuleError ''invalid upper bound''), S)"
    using not_numeric_rejected [of arg S v exc] by blast
  have 3: "\<not> PyLong_Check val \<longrightarrow>
       variable_setattr S v exc (PyUnicode ''priority'') val =
         (Ret (- 1), Some (ModuleError ''invalid value for variable branching priority''), S)"
    by (simp add: setattr_priority_other)
  have 4: "\<not> is_constraint c \<longrightarrow>
       solver_unconstrain self exc c = (PyNULL, self, Some (ModuleError ''invalid constraint type''))"
    by (simp add: unconstrain_other)
  have 5: "\<not> list_all (entry_valid (addr (scip self))) items \<longrightarrow>
       fst (seed_primal self exc (Some items)) = self
       \<and> snd (seed_primal self exc (Some items)) \<noteq> None"
    using seed_primal_invalid [of self items exc] by auto
  have 6: "malformed_seed (addr (scip self)) (arg_solution a) \<longrightarrow>
       fst (optimize dflt self exc a) = self \<and> snd (optimize dflt self exc a) \<noteq> None"
    using optimize_malformed [of self a dflt exc] by blast
  have 7: "malformed_seed (addr (scip self)) (arg_solution a) \<longrightarrow>
       fst (solver_maximize dflt self exc a) = PyNULL
       \<and> snd (snd (solver_maximize dflt self exc a)) \<noteq> None
       \<and> fst (snd (solver_maximize dflt self exc a)) =
           self\<lparr>scip := snd (scip_exec (SetObjsense SCIP_OBJSENSE_MAXIMIZE) (scip self))\<rparr>"
    using maximize_malformed [of self a dflt exc] by blast
  have 8: "malformed_seed (addr (scip self)) (arg_solution a) \<longrightarrow>
       fst (solver_minimize dflt self exc a) = PyNULL
       \<and> snd (snd (solver_minimize dflt self exc a)) \<noteq> None
       \<and> fst (snd (solver_minimize dflt self exc a)) =
           self\<lparr>scip := snd (scip_exec (SetObjsense SCIP_OBJSENSE_MINIMIZE) (scip self))\<rparr>"
    using minimize_malformed [of self a dflt exc] by blast
  have 9: "malformed_seed (addr (scip self)) (arg_solution a) \<longrightarrow>
        accepts (scip self) (SetObjsense SCIP_OBJSENSE_MAXIMIZE) \<longrightarrow>
            scip (fst (snd (solver_maximize dflt self exc a))) =
              (scip self)\<lparr>calls := calls (scip self) @ [SetObjsense SCIP_OBJSENSE_MAXIMIZE],
                           sense := SCIP_OBJSENSE_MAXIMIZE\<rparr>"
    using 7 by (simp add: setobjsense_accepted)
  have 10: "malformed_seed (addr (scip self)) (arg_solution a) \<longrightarrow>
        accepts (scip self) (SetObjsense SCIP_OBJSENSE_MINIMIZE) \<longrightarrow>
            scip (fst (snd (solver_minimize dflt self exc a))) =
              (scip self)\<lparr>calls := calls (scip self) @ [SetObjsense SCIP_OBJSENSE_MINIMIZE],
                           sense := SCIP_OBJSENSE_MINIMIZE\<rparr>"
    using 8 by (simp add: setobjsense_accepted)
  from 1 2 3 4 5 6 7 8 9 10 show ?thesis by blast
qed

theorem validation_errors_change_nothing_but_sense_witness:
  "variable_init variable0 None no_solver_args (Fin 0) =
     (- 1, variable0, Some (ModuleError ''invalid solver type''), Some (PyLong 1))
   \<and> variable_tighten_lower engine0 variable0 None (PyUnicode ''3'') =
     (PyNULL, variable0, Some (ModuleError ''invalid lower bound''), engine0)
   \<and> variable_setattr engine0 variable0 None (PyUnicode ''priority'') (PyUnicode ''3'') =
     (Ret (- 1), Some (ModuleError ''invalid value for variable branching priority''), engine0)
   \<and> solver_unconstrain solver0 None (PyOther ''object'') =
       (PyNULL, solver0, Some (ModuleError ''invalid constraint type''))
   \<and> fst (seed_primal solver0 None (Some bad_seed)) = solver0
   \<and> fst (optimize dflt0 solver0 None (seed_args (Some (PyDict bad_seed)))) = solver0
   \<and> scip (fst (snd (solver_maximize dflt0 solver0 None (seed_args (Some (PyDict bad_seed)))))) =
       engine0\<lparr>calls := [SetObjsense SCIP_OBJSENSE_MAXIMIZE], sense := SCIP_OBJSENSE_MAXIMIZE\<rparr>
   \<and> scip (fst (snd (solver_minimize dflt0 solver0 None (seed_args (Some (PyDict bad_seed)))))) =
       engine0\<lparr>calls := [SetObjsense SCIP_OBJSENSE_MINIMIZE], sense := SCIP_OBJSENSE_MINIMIZE\<rparr>"
proof -
  have h1: "arg_solver no_solver_args = Some (PyLong 1) \<and> \<not> is_solver (PyLong 1)"
    by (simp add: no_solver_args_def)
  have h2: "\<not> (PyFloat_Check (PyUnicode ''3'') \<or> PyLong_Check (PyUnicode ''3''))"
    and h3: "\<not> PyLong_Check (PyUnicode ''3'')"
    and h4: "\<not> is_constraint (PyOther ''object'')"
    by simp_all
  have h5: "\<not> list_all (entry_valid (addr (scip solver0))) bad_seed"
    by (simp add: bad_seed_def)
  have h6: "malformed_seed (addr (scip solver0)) (arg_solution (seed_args (Some (PyDict bad_seed))))"
    by (simp add: seed_args_def bad_seed_def)
  have h7: "accepts (scip solver0) (SetObjsense SCIP_OBJSENSE_MAXIMIZE)"
    "accepts (scip solver0) (SetObjsense SCIP_OBJSENSE_MINIMIZE)"
    by (simp_all add: accepts_def solver0_def engine0_def)
  have c: "scip solver0 = engine0" "calls engine0 = []"
    by (simp_all add: solver0_def engine0_def)
  have i: "variable_init variable0 None no_solver_args (Fin 0) =
     (- 1, variable0, Some (ModuleError ''invalid solver type''), Some (PyLong 1))"
    by (simp add: variable_init_def parse_O_idddi_def no_solver_args_def)
  show ?thesis
    using validation_errors_change_nothing_but_sense [where ia = no_solver_args and s = "PyLong 1"
        and v = variable0 and exc = None and ?c0.0 = "Fin 0" and arg = "PyUnicode ''3''" and S = engine0
        and val = "PyUnicode ''3''" and c = "PyOther ''object''" and self = solver0
        and items = bad_seed and a = "seed_args (Some (PyDict bad_seed))" and dflt = dflt0]
      h1 h2 h3 h4 h5 h6 h7
    by (simp add: c i setobjsense_accepted)
qed

text \<open>
  Claim C7 as stated fails: a session whose objective sense is MINIMIZE, asked to maximize
  with a seed whose key is an int, raises the validation error after the engine call that
  sets the sense, and is left with the sense MAXIMIZE.
\<close>

theorem rejected_optimize_changes_sense_counterexample:
  "sense (scip solver0) = SCIP_OBJSENSE_MINIMIZE
   \<and> solver_maximize dflt0 solver0 None (seed_args (Some (PyDict bad_seed))) =
       (PyNULL,
        solver0\<lparr>scip := engine0\<lparr>calls := [SetObjsense SCIP_OBJSENSE_MAXIMIZE],
                                  sense := SCIP_OBJSENSE_MAXIMIZE\<rparr>\<rparr>,
        Some (ModuleError ''invalid variable type''))
   \<and> sense (scip (fst (snd (solver_maximize dflt0 solver0 None (seed_args (Some (PyDict bad_seed)))))))
       \<noteq> sense (scip solver0)"
  by (simp add: solver_maximize_def optimize_def parse_Odddid_def seed_args_def seed_primal_def
        bad_seed_def scip_exec_def Let_def solver0_def engine0_def dflt0_def SCIP_OKAY_def)


end
